(* ===== verification/Prelude.thy ===== *)
theory Prelude
  imports Complex_Main "HOL-Library.List_Lexorder" "HOL-Library.Char_ord" "HOL-Library.Multiset"
begin

text \<open>
  Shared vocabulary of the drone-swarm development: the type of heap references, the
  collections of rewrite rules the component theories fill, and generic facts on lists
  (separators in serialised strings) and on the Euclidean norm of three reals (the
  distance and the unit vector of \<open>src/code.py\<close>).
\<close>

section \<open>Names and collections\<close>

text \<open>
  Python objects that are shared by reference (a drone, its \<open>gps_coordinates\<close> dict) live
  in heaps indexed by a reference: the position of the object in the heap list.
\<close>

type_synonym ref = nat

text \<open>
  The one exception the core can raise: Python's \<open>ZeroDivisionError\<close> when the
  follower's direction vector has length zero (\<open>adjust_position\<close>, lines 66--71).
  An operation that may raise returns an \<open>outcome\<close>: \<open>Inr\<close> the new state, or
  \<open>Inl\<close> the exception together with the state reached when it was raised (Python keeps
  every mutation made before the \<open>raise\<close>).
\<close>

datatype exc = ZeroDivisionError

type_synonym 'a outcome = "(exc \<times> 'a) + 'a"

definition final_state :: "'a outcome \<Rightarrow> 'a" where
  "final_state r = (case r of Inl (e, s) \<Rightarrow> s | Inr s \<Rightarrow> s)"

named_theorems frame_simps
  "what an operation of the model leaves unchanged"

lemma final_state_simps [simp]:
  "final_state (Inr s) = s" "final_state (Inl (e, s)) = s"
  by (simp_all add: final_state_def)

lemma map_update_same: "r < length xs \<Longrightarrow> (map f xs)[r := f (xs ! r)] = map f xs"
  by (metis length_map list_update_id nth_map)

section \<open>Separated strings\<close>

text \<open>
  A serialised payload is a fixed layout of literal text and number renderings. Two
  renderings followed by a separator that neither contains can be split apart again.
\<close>

lemma append_sep_eq:
  assumes "c \<notin> set a" and "c \<notin> set a'"
  shows "a @ c # b = a' @ c # b' \<longleftrightarrow> a = a' \<and> b = b'"
  using assms
proof (induction a arbitrary: a')
  case Nil
  then show ?case by (cases a') auto
next
  case (Cons x a)
  then show ?case by (cases a') auto
qed

lemma append_suffix_eq [simp]:
  "a @ s = a' @ s \<longleftrightarrow> a = a'"
  by simp

section \<open>The Euclidean norm of three reals\<close>

abbreviation norm3 :: "real \<Rightarrow> real \<Rightarrow> real \<Rightarrow> real" where
  "norm3 x y z \<equiv> sqrt (x\<^sup>2 + y\<^sup>2 + z\<^sup>2)"

lemma norm3_nonneg [simp]: "0 \<le> norm3 x y z"
  by simp

lemma sum_squares3_eq_0_iff [simp]:
  "x\<^sup>2 + y\<^sup>2 + z\<^sup>2 = (0::real) \<longleftrightarrow> x = 0 \<and> y = 0 \<and> z = 0"
  by (auto simp: add_nonneg_eq_0_iff)

lemma norm3_eq_0_iff: "norm3 x y z = 0 \<longleftrightarrow> x = 0 \<and> y = 0 \<and> z = 0"
  by simp

lemma norm3_ge_abs1: "\<bar>x\<bar> \<le> norm3 x y z"
proof -
  have "sqrt (x\<^sup>2) \<le> norm3 x y z"
    by (rule real_sqrt_le_mono) simp
  then show ?thesis by simp
qed

lemma norm3_ge_abs3: "\<bar>z\<bar> \<le> norm3 x y z"
proof -
  have "sqrt (z\<^sup>2) \<le> norm3 x y z"
    by (rule real_sqrt_le_mono) simp
  then show ?thesis by simp
qed

lemma norm3_scale: "norm3 (k * x) (k * y) (k * z) = \<bar>k\<bar> * norm3 x y z"
proof -
  have "(k * x)\<^sup>2 + (k * y)\<^sup>2 + (k * z)\<^sup>2 = k\<^sup>2 * (x\<^sup>2 + y\<^sup>2 + z\<^sup>2)"
    by (simp add: power_mult_distrib algebra_simps)
  then show ?thesis by (simp add: real_sqrt_mult)
qed

lemma norm3_only_z [simp]: "norm3 0 0 z = \<bar>z\<bar>"
  by simp

lemma norm3_diag: "norm3 t t 0 = \<bar>t\<bar> * sqrt 2"
proof -
  have "t\<^sup>2 + t\<^sup>2 + 0\<^sup>2 = 2 * t\<^sup>2" by simp
  then show ?thesis by (simp add: real_sqrt_mult mult.commute)
qed

end
