(* ===== verification/Json.thy ===== *)
theory Json
  imports Prelude
begin

text \<open>
  The part of Python's \<open>json.dumps(obj, sort_keys=True)\<close> that \<open>calculate_checksum\<close> and
  \<open>verify_checksum\<close> (\<open>src/code.py\<close>, lines 102--111) rely on: JSON objects whose members
  are written in ascending key order with the default separators \<open>", "\<close> and \<open>": "\<close>.
  Numbers are rendered by a parameter (the float \<open>repr\<close> of Python is not modelled);
  keys are the fixed identifiers of the payload and are quoted as they are.
\<close>

section \<open>JSON values and their serialisation\<close>

datatype json = JNum real | JObj "(string \<times> json) list"

definition join_with :: "string \<Rightarrow> string list \<Rightarrow> string" where
  "join_with sep xs = (case xs of [] \<Rightarrow> [] | x # ys \<Rightarrow> x @ concat (map (\<lambda>y. sep @ y) ys))"

definition json_key :: "string \<Rightarrow> string" where
  "json_key k = CHR 0x22 # k @ [CHR 0x22]"

function dumps :: "(real \<Rightarrow> string) \<Rightarrow> json \<Rightarrow> string" where
  "dumps rn (JNum x) = rn x"
| "dumps rn (JObj kvs) =
     ''{'' @ join_with '', ''
               (map (\<lambda>(k, v). json_key k @ '': '' @ dumps rn v) (sort_key fst kvs)) @ ''}''"
  by pat_completeness auto
termination
proof (relation "measure (\<lambda>(rn, j). size j)")
  fix rn :: "real \<Rightarrow> string" and kvs :: "(string \<times> json) list" and x k v
  assume "x \<in> set (sort_key fst kvs)" and "(k, v) = x"
  then have "(k, v) \<in> set kvs" by simp
  then have "size v \<le> size_list (size_prod (\<lambda>_. 0) size) kvs"
    by (rule size_list_estimation') simp
  then show "((rn, v), rn, JObj kvs) \<in> measure (\<lambda>(rn, j). size j)"
    by simp
qed simp

end
