(* ===== verification/Geometry.thy ===== *)
theory Geometry
  imports Prelude
begin

text \<open>
  The follower-side geometry of \<open>src/code.py\<close> as pure functions on positions:
  \<open>calculate_distance\<close> (lines 81--87), the equirectangular distance in metres, and
  \<open>correction\<close> (lines 60--77), the step along the mixed-unit unit vector by
  \<open>distance - desired_distance\<close>. Floats are idealised as reals; \<open>math.cos\<close>,
  \<open>math.sqrt\<close> and \<open>math.radians\<close> are HOL's \<open>cos\<close>, \<open>sqrt\<close> and
  \<open>x * pi / 180\<close>. The lemmas show when the step raises, that it moves the follower along
  the line to the leader, that a purely vertical offset is corrected exactly, and that a
  horizontal one can overshoot.
\<close>

section \<open>Positions and the distance\<close>

text \<open>
  A position as \<open>calculate_distance\<close> reads it: latitude and longitude in degrees (the
  \<open>gps_coordinates\<close> dict) and altitude in metres.
\<close>

record pos =
  lat :: real
  lon :: real
  alt :: real

definition radians :: "real \<Rightarrow> real" where
  "radians d = d * pi / 180"

definition desired_distance :: real where
  "desired_distance = 3"

definition calculate_distance :: "pos \<Rightarrow> pos \<Rightarrow> real" where
  "calculate_distance me ld =
     (let lat_diff = (lat ld - lat me) * 111139;
          long_diff = (lon ld - lon me) * 111139 * cos (radians (lat me));
          alt_diff = alt ld - alt me
      in sqrt (lat_diff\<^sup>2 + long_diff\<^sup>2 + alt_diff\<^sup>2))"

section \<open>The correction step\<close>

text \<open>
  Lines 60--77 of \<open>adjust_position\<close>, given the distance computed at line 51: the raw
  deltas (degrees, degrees, metres), their Euclidean length, the unit vector (a float
  division by a zero length raises \<open>ZeroDivisionError\<close>), and the new position.
\<close>

definition correction :: "pos \<Rightarrow> pos \<Rightarrow> real \<Rightarrow> exc + pos" where
  "correction me ld distance =
     (let delta_lat = lat ld - lat me;
          delta_long = lon ld - lon me;
          delta_alt = alt ld - alt me;
          vector_length = sqrt (delta_lat\<^sup>2 + delta_long\<^sup>2 + delta_alt\<^sup>2)
      in if vector_length = 0 then Inl ZeroDivisionError
         else
           (let u_lat = delta_lat / vector_length;
                u_long = delta_long / vector_length;
                u_alt = delta_alt / vector_length;
                adjustment = distance - desired_distance
            in Inr \<lparr>lat = lat me + u_lat * adjustment,
                    lon = lon me + u_long * adjustment,
                    alt = alt me + u_alt * adjustment\<rparr>))"

text \<open>
  What one \<open>adjust_position\<close> does to the follower's position, given where it and the
  leader's payload are (lines 51--77): stay at exactly 3.0 m, raise on a zero offset,
  otherwise take the correction step.
\<close>

definition follow_step :: "pos \<Rightarrow> pos \<Rightarrow> exc + pos" where
  "follow_step me ld =
     (let distance = calculate_distance me ld
      in if distance = desired_distance then Inr me else correction me ld distance)"

section \<open>Properties of the distance\<close>

lemma calculate_distance_nonneg [simp]: "0 \<le> calculate_distance me ld"
  by (simp add: calculate_distance_def Let_def)

lemma calculate_distance_ge_lat:
  "\<bar>lat ld - lat me\<bar> * 111139 \<le> calculate_distance me ld"
proof -
  have "\<bar>(lat ld - lat me) * 111139\<bar> \<le> calculate_distance me ld"
    unfolding calculate_distance_def Let_def by (rule norm3_ge_abs1)
  then show ?thesis by (simp only: abs_mult abs_numeral)
qed

lemma calculate_distance_vertical:
  "lat me = lat ld \<Longrightarrow> lon me = lon ld \<Longrightarrow> calculate_distance me ld = \<bar>alt ld - alt me\<bar>"
  by (simp add: calculate_distance_def)

lemma calculate_distance_meridian:
  "lon me = lon ld \<Longrightarrow> alt me = alt ld \<Longrightarrow> calculate_distance me ld = \<bar>lat ld - lat me\<bar> * 111139"
proof -
  assume "lon me = lon ld" and "alt me = alt ld"
  then have "calculate_distance me ld = sqrt (((lat ld - lat me) * 111139)\<^sup>2)"
    unfolding calculate_distance_def Let_def by simp
  also have "\<dots> = \<bar>lat ld - lat me\<bar> * 111139"
    by (simp only: real_sqrt_abs abs_mult abs_numeral)
  finally show ?thesis .
qed

lemma calculate_distance_self [simp]: "calculate_distance p p = 0"
  by (simp add: calculate_distance_def)

lemma pos_eq_iff: "((p::pos) = q) \<longleftrightarrow> lat p = lat q \<and> lon p = lon q \<and> alt p = alt q"
  by (cases p, cases q) auto

section \<open>Properties of the correction step\<close>

lemma correction_Inl_iff:
  "correction me ld d = Inl e \<longleftrightarrow> lat me = lat ld \<and> lon me = lon ld \<and> alt me = alt ld"
  by (cases e) (auto simp: correction_def Let_def)

lemma correction_Inr:
  assumes "\<not> (lat me = lat ld \<and> lon me = lon ld \<and> alt me = alt ld)"
  shows "correction me ld d = Inr
    (let n = norm3 (lat ld - lat me) (lon ld - lon me) (alt ld - alt me); a = d - desired_distance
     in \<lparr>lat = lat me + (lat ld - lat me) / n * a, lon = lon me + (lon ld - lon me) / n * a,
         alt = alt me + (alt ld - alt me) / n * a\<rparr>)"
  using assms by (auto simp: correction_def Let_def)

text \<open>
  C8: The correction moves the follower along the line through the leader: the new raw
  offset (degrees, degrees, metres) to the leader is the old one scaled by
  \<open>1 - (distance - 3) / vector_length\<close>.
\<close>

lemma correction_along_line:
  assumes "correction me ld d = Inr p"
  defines "n \<equiv> norm3 (lat ld - lat me) (lon ld - lon me) (alt ld - alt me)"
  defines "k \<equiv> 1 - (d - desired_distance) / n"
  shows "lat ld - lat p = k * (lat ld - lat me) \<and> lon ld - lon p = k * (lon ld - lon me)
       \<and> alt ld - alt p = k * (alt ld - alt me)"
proof -
  have ne: "\<not> (lat me = lat ld \<and> lon me = lon ld \<and> alt me = alt ld)"
    using assms(1) correction_Inl_iff by (metis sum.disc(2) sum.exhaust_disc isl_def)
  then have "n \<noteq> 0" by (auto simp: n_def)
  moreover from assms(1) ne have "p = \<lparr>lat = lat me + (lat ld - lat me) / n * (d - desired_distance),
       lon = lon me + (lon ld - lon me) / n * (d - desired_distance),
       alt = alt me + (alt ld - alt me) / n * (d - desired_distance)\<rparr>"
    by (simp add: correction_Inr n_def Let_def)
  ultimately show ?thesis by (simp add: k_def field_simps)
qed

text \<open>
  C9: When the follower is straight below or above the leader, the mixed units do not
  matter and one correction puts it at exactly the desired distance of 3 metres.
\<close>

lemma correction_vertical_exact:
  assumes "lat me = lat ld" and "lon me = lon ld" and "alt me \<noteq> alt ld"
  shows "\<exists>p. correction me ld (calculate_distance me ld) = Inr p
           \<and> calculate_distance p ld = desired_distance"
proof -
  let ?D = "alt ld - alt me"
  have D: "?D \<noteq> 0" using assms(3) by simp
  have dist: "calculate_distance me ld = \<bar>?D\<bar>"
    using assms(1,2) by (rule calculate_distance_vertical)
  define p where "p = \<lparr>lat = lat me, lon = lon me, alt = alt me + ?D / \<bar>?D\<bar> * (\<bar>?D\<bar> - desired_distance)\<rparr>"
  have c: "correction me ld (calculate_distance me ld) = Inr p"
    using assms by (simp add: dist correction_Inr p_def)
  have e: "alt ld - alt p = ?D / \<bar>?D\<bar> * desired_distance"
    using D by (simp add: p_def field_simps)
  have u: "\<bar>?D / \<bar>?D\<bar>\<bar> = 1"
    using D by simp
  have "\<bar>alt ld - alt p\<bar> = desired_distance"
    unfolding e abs_mult u by (simp add: desired_distance_def)
  then have "calculate_distance p ld = desired_distance"
    using assms(1,2) by (simp add: calculate_distance_vertical p_def)
  with c show ?thesis by blast
qed

section \<open>The scenario of the specification\<close>

text \<open>
  The positions of drones \<open>B\<close> (follower) and \<open>A\<close> (leader) at lines 122--123. Latitude
  28.704 is below 30 degrees, so its cosine lies between \<open>cos 30\<degree> > 0.865\<close> and 1,
  which bounds the distance between 14 and 16 metres.
\<close>

lemma cos_radians_bounds:
  assumes "0 \<le> x" and "x \<le> 30"
  shows "173 / 200 \<le> cos (radians x) \<and> cos (radians x) \<le> 1"
proof -
  have r: "0 \<le> radians x" "radians x \<le> pi / 6"
    using assms pi_gt_zero by (simp_all add: radians_def field_simps)
  then have "cos (pi / 6) \<le> cos (radians x)"
    by (intro cos_monotone_0_pi_le) (simp_all add: pi_gt_zero)
  moreover have "173 / 100 \<le> sqrt (3::real)"
    by (rule real_le_rsqrt) (simp add: power2_eq_square)
  ultimately show ?thesis by (simp add: cos_30)
qed

lemma sqrt2_lt: "sqrt (2::real) < 3 / 2"
  by (rule real_less_lsqrt) (simp_all add: power2_eq_square)

text \<open>
  Offsets of one unit in the fourth decimal of both coordinates, as between the drones of the
  script: the distance is between 14 and 16 metres at latitudes up to 30 degrees, and the
  step is taken along the diagonal.
\<close>

lemma correction_diag:
  assumes "lat ld - lat me = t" and "lon ld - lon me = t" and "alt ld = alt me" and "t \<noteq> 0"
  shows "correction me ld d = Inr \<lparr>lat = lat me + sgn t * (d - desired_distance) / sqrt 2,
           lon = lon me + sgn t * (d - desired_distance) / sqrt 2, alt = alt me\<rparr>"
proof -
  have ne: "\<not> (lat me = lat ld \<and> lon me = lon ld \<and> alt me = alt ld)" using assms by auto
  have "t * a / (\<bar>t\<bar> * sqrt 2) = sgn t * a / sqrt 2" for a
    using assms(4) by (cases "0 < t") (simp_all add: sgn_if)
  then show ?thesis
    using correction_Inr [OF ne, of d] assms(1-3) norm3_diag [of t] by (simp add: Let_def)
qed

lemma distance_diag_bounds:
  assumes "0 \<le> lat me" and "lat me \<le> 30" and "\<bar>lat ld - lat me\<bar> = 1 / 10000"
    and "\<bar>lon ld - lon me\<bar> = 1 / 10000" and "alt ld = alt me"
  shows "14 < calculate_distance me ld \<and> calculate_distance me ld < 16"
proof -
  define c where "c = cos (radians (lat me))"
  have cb: "173 / 200 \<le> c \<and> c \<le> 1" unfolding c_def using assms(1,2) by (rule cos_radians_bounds)
  have "(173 / 200)\<^sup>2 \<le> c\<^sup>2"
    using cb by (intro power_mono) simp_all
  moreover have "c\<^sup>2 \<le> 1"
    using cb by (intro power_le_one) simp_all
  ultimately have c2: "(173 / 200)\<^sup>2 \<le> c\<^sup>2 \<and> c\<^sup>2 \<le> 1" by blast
  have sq: "(lat ld - lat me)\<^sup>2 = (1 / 10000)\<^sup>2" "(lon ld - lon me)\<^sup>2 = (1 / 10000)\<^sup>2"
    using assms(3,4) by (metis power2_abs)+
  have d: "calculate_distance me ld = sqrt ((111139 / 10000)\<^sup>2 + (111139 / 10000)\<^sup>2 * c\<^sup>2)"
    unfolding calculate_distance_def Let_def power_mult_distrib sq assms(5) c_def
    by (simp add: power_divide)
  have "14 < sqrt ((111139 / 10000)\<^sup>2 + (111139 / 10000)\<^sup>2 * c\<^sup>2)"
    using c2 by (intro real_less_rsqrt) (simp add: power2_eq_square)
  moreover have "sqrt ((111139 / 10000)\<^sup>2 + (111139 / 10000)\<^sup>2 * c\<^sup>2) < 16"
    using c2 by (intro real_less_lsqrt) (simp_all add: power2_eq_square)
  ultimately show ?thesis unfolding d by simp
qed

lemma follow_step_diag:
  assumes "lat ld - lat me = t" and "lon ld - lon me = t" and "alt ld = alt me" and "t \<noteq> 0"
  shows "follow_step me ld = Inr \<lparr>lat = lat me + sgn t * (calculate_distance me ld - desired_distance) / sqrt 2,
           lon = lon me + sgn t * (calculate_distance me ld - desired_distance) / sqrt 2, alt = alt me\<rparr>"
proof (cases "calculate_distance me ld = desired_distance")
  case True
  then show ?thesis by (simp add: follow_step_def pos_eq_iff)
next
  case False
  then show ?thesis using correction_diag [OF assms] by (simp add: follow_step_def Let_def)
qed

lemma follow_step_diag_far:
  assumes "lat ld - lat me = t" and "lon ld - lon me = t" and "alt ld = alt me" and "7 < \<bar>t\<bar>"
    and "follow_step me ld = Inr p"
  shows "500000 < \<bar>lat ld - lat p\<bar>"
proof -
  let ?d = "calculate_distance me ld"
  have t0: "t \<noteq> 0" using assms(4) by auto
  have lp: "lat p = lat me + sgn t * (?d - desired_distance) / sqrt 2"
    using follow_step_diag [OF assms(1-3) t0] assms(5) by simp
  have "\<bar>t\<bar> * 111139 \<le> ?d" using calculate_distance_ge_lat [of ld me] assms(1) by simp
  then have dg: "\<bar>t\<bar> * 111139 - 3 \<le> ?d - desired_distance" by (simp add: desired_distance_def)
  have s2: "0 < sqrt (2::real)" "sqrt (2::real) < 3 / 2" using sqrt2_lt by simp_all
  have pos: "0 < \<bar>t\<bar> * 111139 - 3" using assms(4) by simp
  have "(\<bar>t\<bar> * 111139 - 3) / (3 / 2) < (\<bar>t\<bar> * 111139 - 3) / sqrt 2"
    using pos s2 by (intro divide_strict_left_mono) simp_all
  also have "\<dots> \<le> (?d - desired_distance) / sqrt 2"
    using dg s2 by (intro divide_right_mono) simp_all
  finally have big: "(\<bar>t\<bar> * 111139 - 3) / (3 / 2) < (?d - desired_distance) / sqrt 2" .
  have "lat ld - lat p = sgn t * (\<bar>t\<bar> - (?d - desired_distance) / sqrt 2)"
    using lp assms(1) t0 by (cases "0 < t") (simp_all add: sgn_if algebra_simps)
  then have "\<bar>lat ld - lat p\<bar> = \<bar>\<bar>t\<bar> - (?d - desired_distance) / sqrt 2\<bar>"
    using t0 by (simp add: abs_mult)
  moreover have "500000 < (\<bar>t\<bar> * 111139 - 3) / (3 / 2) - \<bar>t\<bar>"
    using assms(4) by (simp add: field_simps)
  then have "500000 < (?d - desired_distance) / sqrt 2 - \<bar>t\<bar>"
    using big by linarith
  ultimately show ?thesis by linarith
qed

lemma spec_scenario_distance:
  "14 < calculate_distance \<lparr>lat = 28.704, lon = 77.1024, alt = 100\<rparr> \<lparr>lat = 28.7041, lon = 77.1025, alt = 100\<rparr>
   \<and> calculate_distance \<lparr>lat = 28.704, lon = 77.1024, alt = 100\<rparr> \<lparr>lat = 28.7041, lon = 77.1025, alt = 100\<rparr> < 16"
  by (rule distance_diag_bounds) simp_all

text \<open>
  C14: On the positions of lines 122--123 the computed distance is above 14 m (the
  specification expects 13--14 m), and one correction does not bring the follower closer to
  the 3 m standoff: the step of about 11.8 units is taken in degrees along the raw offset, so
  the follower lands several degrees (hundreds of kilometres) away.
\<close>

lemma spec_scenario_overshoots:
  "14 < calculate_distance \<lparr>lat = 28.704, lon = 77.1024, alt = 100\<rparr> \<lparr>lat = 28.7041, lon = 77.1025, alt = 100\<rparr>
   \<and> (\<exists>p. correction \<lparr>lat = 28.704, lon = 77.1024, alt = 100\<rparr> \<lparr>lat = 28.7041, lon = 77.1025, alt = 100\<rparr>
          (calculate_distance \<lparr>lat = 28.704, lon = 77.1024, alt = 100\<rparr> \<lparr>lat = 28.7041, lon = 77.1025, alt = 100\<rparr>) = Inr p
     \<and> \<bar>calculate_distance \<lparr>lat = 28.704, lon = 77.1024, alt = 100\<rparr> \<lparr>lat = 28.7041, lon = 77.1025, alt = 100\<rparr>
          - desired_distance\<bar>
       < \<bar>calculate_distance p \<lparr>lat = 28.7041, lon = 77.1025, alt = 100\<rparr> - desired_distance\<bar>)"
  (is "_ \<and> (\<exists>p. correction ?B ?L ?d = Inr p \<and> _ < \<bar>calculate_distance p ?L - _\<bar>)")
proof -
  have db: "14 < ?d \<and> ?d < 16" by (rule spec_scenario_distance)
  have sq: "(lat ?L - lat ?B)\<^sup>2 + (lon ?L - lon ?B)\<^sup>2 + (alt ?L - alt ?B)\<^sup>2 = (sqrt 2 / 10000)\<^sup>2"
    by (simp add: power_divide)
  have n: "norm3 (lat ?L - lat ?B) (lon ?L - lon ?B) (alt ?L - alt ?B) = sqrt 2 / 10000"
    unfolding sq by simp
  define p where "p = \<lparr>lat = lat ?B + (1 / 10000) / (sqrt 2 / 10000) * (?d - desired_distance),
      lon = lon ?B + (1 / 10000) / (sqrt 2 / 10000) * (?d - desired_distance),
      alt = alt ?B + 0 / (sqrt 2 / 10000) * (?d - desired_distance)\<rparr>"
  have c: "correction ?B ?L ?d = Inr p"
    using correction_Inr [of ?B ?L ?d] n by (simp add: p_def Let_def)
  have s2: "0 < sqrt (2::real)" "sqrt (2::real) < 3 / 2"
    using sqrt2_lt by simp_all
  have "22 / 3 < (?d - desired_distance) / sqrt 2"
  proof -
    have "11 < ?d - desired_distance" using db by (simp add: desired_distance_def)
    then have "11 / sqrt 2 < (?d - desired_distance) / sqrt 2"
      using s2 by (simp add: divide_strict_right_mono)
    moreover have "22 / 3 < 11 / sqrt (2::real)"
      using s2 by (simp add: field_simps)
    ultimately show ?thesis by linarith
  qed
  moreover have "lat ?L - lat p = 1 / 10000 - (?d - desired_distance) / sqrt 2"
    using s2 by (simp add: p_def field_simps)
  ultimately have "7 < \<bar>lat ?L - lat p\<bar>" by linarith
  then have "7 * 111139 < \<bar>lat ?L - lat p\<bar> * 111139" by simp
  moreover have "\<bar>lat ?L - lat p\<bar> * 111139 \<le> calculate_distance p ?L"
    by (rule calculate_distance_ge_lat)
  ultimately have "777973 < calculate_distance p ?L" by simp
  then have "\<bar>?d - desired_distance\<bar> < \<bar>calculate_distance p ?L - desired_distance\<bar>"
    using db by (simp add: desired_distance_def)
  with c db show ?thesis by blast
qed

end
