(* ===== verification/Drone.thy ===== *)
theory Drone
  imports Geometry
begin

text \<open>
  The state of \<open>class Drone\<close> (\<open>src/code.py\<close>, lines 5--14) and the operations that only
  touch one drone: the constructor and \<open>update_position\<close> (lines 113--118). Python
  objects are shared by reference, and the position payload of a message holds the
  leader's \<open>gps_coordinates\<close> dict itself (line 23), not a copy. So the model keeps two
  heaps: the drone objects and the \<open>gps_coordinates\<close> dicts, each a list indexed by a
  reference. The console is a list of events, one per \<open>print\<close>.
\<close>

section \<open>Data\<close>

text \<open>The \<open>velocity\<close> and \<open>acceleration\<close> dicts with keys \<open>x\<close>, \<open>y\<close>, \<open>z\<close>.\<close>

record vec3 =
  vec_x :: real
  vec_y :: real
  vec_z :: real

text \<open>A \<open>gps_coordinates\<close> dict, keys \<open>latitude\<close> and \<open>longitude\<close>.\<close>

record gps =
  latitude :: real
  longitude :: real

text \<open>
  A message (lines 91--99): the header dict, the payload dict and the checksum string.
  The payload of \<open>"Position Update"\<close> is \<open>{"gps_coordinates": <dict>, "altitude": <number>}\<close>:
  the first entry is a reference into the dict heap, the second a value.
\<close>

record header =
  message_type :: string
  source_id :: string
  destination_ids :: "string list"

record position_payload =
  payload_gps :: ref
  payload_altitude :: real

record message =
  header :: header
  payload :: position_payload
  checksum :: string

record drone =
  drone_id :: string
  role :: string
  mass :: real
  velocity :: vec3
  acceleration :: vec3
  gps_coordinates :: ref
  altitude :: real
  received_messages :: "message list"

text \<open>One constructor per \<open>print\<close> of the source, with the data it shows.\<close>

datatype event =
    NotLeader string
  | Sending string string
  | Received string message
  | Corrupted string
  | CurrentDistance string real
  | AtDesired string
  | Adjusted string gps real
  | Moved string gps real

record world =
  drones :: "drone list"
  gps_heap :: "gps list"
  console :: "event list"

section \<open>Heap access\<close>

definition emit :: "world \<Rightarrow> event \<Rightarrow> world" where
  "emit w e = w\<lparr>console := console w @ [e]\<rparr>"

definition set_drone :: "world \<Rightarrow> ref \<Rightarrow> drone \<Rightarrow> world" where
  "set_drone w r d = w\<lparr>drones := (drones w)[r := d]\<rparr>"

definition set_gps :: "world \<Rightarrow> ref \<Rightarrow> gps \<Rightarrow> world" where
  "set_gps w g v = w\<lparr>gps_heap := (gps_heap w)[g := v]\<rparr>"

text \<open>The position of drone \<open>r\<close> as \<open>calculate_distance\<close> reads it through \<open>self\<close>.\<close>

definition position_of :: "world \<Rightarrow> ref \<Rightarrow> pos" where
  "position_of w r =
     (let d = drones w ! r; g = gps_heap w ! gps_coordinates d
      in \<lparr>lat = latitude g, lon = longitude g, alt = altitude d\<rparr>)"

text \<open>The position a payload denotes now: its dict is read through the heap.\<close>

definition payload_pos :: "world \<Rightarrow> position_payload \<Rightarrow> pos" where
  "payload_pos w p =
     (let g = gps_heap w ! payload_gps p
      in \<lparr>lat = latitude g, lon = longitude g, alt = payload_altitude p\<rparr>)"

section \<open>Operations of one drone\<close>

text \<open>
  \<open>Drone.__init__\<close>: a fresh \<open>gps_coordinates\<close> dict is allocated for every drone; the
  result is the reference of the new drone.
\<close>

definition drone_init ::
  "world \<Rightarrow> string \<Rightarrow> string \<Rightarrow> real \<Rightarrow> real \<times> real \<times> real \<Rightarrow> real \<times> real \<Rightarrow> real \<Rightarrow> ref \<times> world"
where
  "drone_init w i rl m initial_velocity gps_coords alt0 =
     (let g = length (gps_heap w);
          (v0, v1, v2) = initial_velocity;
          (la, lo) = gps_coords;
          d = \<lparr>drone_id = i, role = rl, mass = m,
               velocity = \<lparr>vec_x = v0, vec_y = v1, vec_z = v2\<rparr>,
               acceleration = \<lparr>vec_x = 0, vec_y = 0, vec_z = 0\<rparr>,
               gps_coordinates = g, altitude = alt0, received_messages = []\<rparr>
      in (length (drones w),
          w\<lparr>drones := drones w @ [d],
            gps_heap := gps_heap w @ [\<lparr>latitude = la, longitude = lo\<rparr>]\<rparr>))"

definition update_position :: "world \<Rightarrow> ref \<Rightarrow> real \<Rightarrow> real \<Rightarrow> real \<Rightarrow> world" where
  "update_position w r delta_latitude delta_longitude delta_altitude =
     (let d = drones w ! r; g = gps_coordinates d; c = gps_heap w ! g;
          c' = c\<lparr>latitude := latitude c + delta_latitude,
                 longitude := longitude c + delta_longitude\<rparr>;
          d' = d\<lparr>altitude := altitude d + delta_altitude\<rparr>;
          w' = set_drone (set_gps w g c') r d'
      in emit w' (Moved (drone_id d) c' (altitude d')))"

section \<open>Well-formed heaps\<close>

text \<open>
  Every reference a drone holds, its own dict and the dicts of the messages in its log,
  is allocated, and no two drones share a \<open>gps_coordinates\<close> dict. The constructor makes
  the last part true: each call builds a new dict.
\<close>

definition msg_ok :: "world \<Rightarrow> message \<Rightarrow> bool" where
  "msg_ok w m \<longleftrightarrow> payload_gps (payload m) < length (gps_heap w)"

definition wf_world :: "world \<Rightarrow> bool" where
  "wf_world w \<longleftrightarrow>
     list_all (\<lambda>d. gps_coordinates d < length (gps_heap w)
                   \<and> list_all (msg_ok w) (received_messages d)) (drones w)
     \<and> distinct (map gps_coordinates (drones w))"

text \<open>
  The attributes of a drone that no operation assigns after construction: identity, role,
  mass, velocity, acceleration and the reference to its own dict.
\<close>

definition drone_skel :: "drone \<Rightarrow> string \<times> string \<times> real \<times> vec3 \<times> vec3 \<times> ref" where
  "drone_skel d = (drone_id d, role d, mass d, velocity d, acceleration d, gps_coordinates d)"

text \<open>The deliveries a console records, in order: one pair per \<open>Sending\<close> line.\<close>

fun sent :: "event \<Rightarrow> (string \<times> string) list" where
  "sent (Sending a b) = [(a, b)]"
| "sent _ = []"

definition sending_log :: "event list \<Rightarrow> (string \<times> string) list" where
  "sending_log evs = concat (map sent evs)"

definition initial_world :: world where
  "initial_world = \<lparr>drones = [], gps_heap = [], console = []\<rparr>"

section \<open>Heap lemmas\<close>

lemma sending_log_simps [simp]:
  "sending_log [] = []" "sending_log (evs @ evs') = sending_log evs @ sending_log evs'"
  "sending_log (e # evs) = sent e @ sending_log evs"
  by (simp_all add: sending_log_def)

lemma heap_access_simps [simp, frame_simps]:
  "drones (emit w e) = drones w" "gps_heap (emit w e) = gps_heap w"
  "console (emit w e) = console w @ [e]"
  "drones (set_drone w r d) = (drones w)[r := d]" "gps_heap (set_drone w r d) = gps_heap w"
  "console (set_drone w r d) = console w"
  "drones (set_gps w g v) = drones w" "gps_heap (set_gps w g v) = (gps_heap w)[g := v]"
  "console (set_gps w g v) = console w"
  by (simp_all add: emit_def set_drone_def set_gps_def)

lemma drone_skel_update [simp, frame_simps]:
  "drone_skel (d\<lparr>altitude := a\<rparr>) = drone_skel d"
  "drone_skel (d\<lparr>received_messages := ms\<rparr>) = drone_skel d"
  by (simp_all add: drone_skel_def)

lemma position_of_emit [simp, frame_simps]:
  "position_of (emit w e) r = position_of w r" "payload_pos (emit w e) p = payload_pos w p"
  by (simp_all add: position_of_def payload_pos_def)

lemma skel_eq_nth:
  assumes "map drone_skel ys = map drone_skel xs" and "i < length xs"
  shows "drone_id (ys ! i) = drone_id (xs ! i) \<and> role (ys ! i) = role (xs ! i)
    \<and> gps_coordinates (ys ! i) = gps_coordinates (xs ! i)"
proof -
  have "length ys = length xs" using arg_cong [OF assms(1), of length] by simp
  then have "drone_skel (ys ! i) = drone_skel (xs ! i)"
    using arg_cong [OF assms(1), of "\<lambda>l. l ! i"] assms(2) by simp
  then show ?thesis by (simp add: drone_skel_def)
qed

lemma skel_map_eq:
  assumes "map drone_skel ys = map drone_skel xs"
  shows "map gps_coordinates ys = map gps_coordinates xs" and "map role ys = map role xs"
    and "map drone_id ys = map drone_id xs"
proof -
  have "map gps_coordinates ys = map (\<lambda>s. snd (snd (snd (snd (snd s))))) (map drone_skel ys)"
    and "map role ys = map (\<lambda>s. fst (snd s)) (map drone_skel ys)"
    and "map drone_id ys = map fst (map drone_skel ys)"
    by (simp_all add: drone_skel_def)
  then show "map gps_coordinates ys = map gps_coordinates xs" and "map role ys = map role xs"
    and "map drone_id ys = map drone_id xs"
    by (simp_all add: assms drone_skel_def)
qed

section \<open>Properties of the drone operations\<close>

text \<open>
  C12: \<open>update_position\<close> adds the three deltas to the drone's latitude, longitude and
  altitude, without bounds checks, and moves no other drone: in a well-formed heap no other
  drone shares the dict it writes.
\<close>

lemma update_position_moves:
  assumes "wf_world w" and "r < length (drones w)"
  shows "position_of (update_position w r a b c) r =
           \<lparr>lat = lat (position_of w r) + a, lon = lon (position_of w r) + b, alt = alt (position_of w r) + c\<rparr>
    \<and> (\<forall>q < length (drones w). q \<noteq> r \<longrightarrow> position_of (update_position w r a b c) q = position_of w q)"
proof -
  have dist: "distinct (map gps_coordinates (drones w))"
    and inb: "gps_coordinates (drones w ! r) < length (gps_heap w)"
    using assms by (auto simp: wf_world_def list_all_length)
  have other: "position_of (update_position w r a b c) q = position_of w q"
    if "q < length (drones w)" and "q \<noteq> r" for q
  proof -
    have "gps_coordinates (drones w ! q) \<noteq> gps_coordinates (drones w ! r)"
      using dist assms(2) that by (auto simp: distinct_conv_nth)
    then show ?thesis using that by (simp add: update_position_def position_of_def Let_def)
  qed
  have self: "position_of (update_position w r a b c) r =
           \<lparr>lat = lat (position_of w r) + a, lon = lon (position_of w r) + b, alt = alt (position_of w r) + c\<rparr>"
    using assms(2) inb by (simp add: update_position_def position_of_def Let_def)
  show ?thesis using self other by blast
qed

text \<open>
  C13: Constructing a drone keeps the heap well-formed: its \<open>gps_coordinates\<close> dict is a
  fresh object, shared with no other drone.
\<close>

lemma wf_drone_init:
  assumes "wf_world w"
  shows "wf_world (snd (drone_init w i rl m v gc a))"
proof -
  obtain v0 v1 v2 where v: "v = (v0, v1, v2)" by (cases v) auto
  obtain la lo where g: "gc = (la, lo)" by (cases gc) auto
  let ?n = "length (gps_heap w)"
  have old: "list_all (\<lambda>d. gps_coordinates d < ?n \<and> list_all (msg_ok w) (received_messages d)) (drones w)"
    and dist: "distinct (map gps_coordinates (drones w))"
    using assms by (simp_all add: wf_world_def)
  have ok: "\<And>ms. list_all (msg_ok w) ms \<Longrightarrow> list_all (msg_ok (w\<lparr>gps_heap := gps_heap w @ [x]\<rparr>)) ms" for x
    by (auto simp: list_all_iff msg_ok_def)
  have fresh: "?n \<notin> set (map gps_coordinates (drones w))"
    using old by (auto simp: list_all_iff)
  show ?thesis
    using old dist fresh ok by (auto simp: wf_world_def drone_init_def v g Let_def list_all_iff msg_ok_def)
qed


end
