(* ===== verification/Message.thy ===== *)
theory Message
  imports Json Drone
begin

text \<open>
  Message framing and integrity (\<open>src/code.py\<close>, lines 22--25 and 89--111). The checksum
  is \<open>hashlib.md5(json.dumps(payload, sort_keys=True).encode()).hexdigest()\<close>. Two library
  functions are parameters of the model, bundled as a \<open>codec\<close>: the rendering of a
  number by \<open>json.dumps\<close> and the digest (\<open>md5\<close> of the UTF-8 bytes, as hex). The payload
  is serialised from the heap at the moment of the call, because its
  \<open>gps_coordinates\<close> entry is the leader's live dict.
\<close>

section \<open>Codec and payload\<close>

record codec =
  num_repr :: "real \<Rightarrow> string"
  digest :: "string \<Rightarrow> string"

text \<open>The payload dict of lines 22--25 as a JSON value, read through the heap.\<close>

definition payload_json :: "world \<Rightarrow> position_payload \<Rightarrow> json" where
  "payload_json w p =
     (let g = gps_heap w ! payload_gps p
      in JObj [(''gps_coordinates'',
                JObj [(''latitude'', JNum (latitude g)), (''longitude'', JNum (longitude g))]),
               (''altitude'', JNum (payload_altitude p))])"

definition calculate_checksum :: "codec \<Rightarrow> world \<Rightarrow> position_payload \<Rightarrow> string" where
  "calculate_checksum c w p = digest c (dumps (num_repr c) (payload_json w p))"

definition create_message ::
  "codec \<Rightarrow> world \<Rightarrow> ref \<Rightarrow> string \<Rightarrow> position_payload \<Rightarrow> string list \<Rightarrow> message"
where
  "create_message c w r mt p dest_ids =
     \<lparr>header = \<lparr>message_type = mt, source_id = drone_id (drones w ! r),
                 destination_ids = dest_ids\<rparr>,
      payload = p,
      checksum = calculate_checksum c w p\<rparr>"

definition verify_checksum :: "codec \<Rightarrow> world \<Rightarrow> message \<Rightarrow> bool" where
  "verify_checksum c w m =
     (let data = dumps (num_repr c) (payload_json w (payload m))
      in digest c data = checksum m)"

section \<open>Serialised payload\<close>

text \<open>
  The text hashed for a position payload, written out: members in key order, numbers
  rendered by the codec. It can be split back into the three renderings when they contain
  no comma (a float \<open>repr\<close> never does).
\<close>

lemma dumps_payload_json:
  "dumps rn (payload_json w p) =
     ''{\"altitude\": '' @ rn (payload_altitude p) @ '', \"gps_coordinates\": {\"latitude\": ''
       @ rn (latitude (gps_heap w ! payload_gps p)) @ '', \"longitude\": ''
       @ rn (longitude (gps_heap w ! payload_gps p)) @ ''}}''"
  by (simp add: payload_json_def Let_def join_with_def json_key_def)

lemma dumps_payload_json_inj:
  assumes "\<forall>x. CHR '','' \<notin> set (rn x)"
    and "dumps rn (payload_json w p) = dumps rn (payload_json w' p')"
  shows "rn (payload_altitude p) = rn (payload_altitude p')
    \<and> rn (latitude (gps_heap w ! payload_gps p)) = rn (latitude (gps_heap w' ! payload_gps p'))
    \<and> rn (longitude (gps_heap w ! payload_gps p)) = rn (longitude (gps_heap w' ! payload_gps p'))"
  using assms by (simp add: dumps_payload_json append_sep_eq)

section \<open>Checksum verification\<close>

lemma verify_create_message:
  "verify_checksum c w (create_message c w r mt p ids)"
  by (simp add: verify_checksum_def create_message_def calculate_checksum_def)

lemma verify_payload_frame:
  assumes "gps_heap w' ! payload_gps p = gps_heap w ! payload_gps p"
  shows "verify_checksum c w' (create_message c w r mt p ids)"
  using assms by (simp add: verify_checksum_def create_message_def calculate_checksum_def payload_json_def)

text \<open>
  C5: Corruption detection. If the digest is injective and the number renderings contain no
  comma, a message whose payload denotes a different position from the one its checksum
  was computed over (because a field was replaced, or because the dict it refers to was
  mutated) fails \<open>verify_checksum\<close>.
\<close>

lemma tampered_payload_rejected:
  assumes "inj (digest c)"
    and "\<forall>x. CHR '','' \<notin> set (num_repr c x)"
    and "inj_on (num_repr c) {lat (payload_pos w p), lon (payload_pos w p), alt (payload_pos w p),
                              lat (payload_pos w' p'), lon (payload_pos w' p'), alt (payload_pos w' p')}"
    and "payload_pos w' p' \<noteq> payload_pos w p"
  shows "\<not> verify_checksum c w' ((create_message c w r mt p ids)\<lparr>payload := p'\<rparr>)"
proof
  assume "verify_checksum c w' ((create_message c w r mt p ids)\<lparr>payload := p'\<rparr>)"
  then have "digest c (dumps (num_repr c) (payload_json w' p')) = digest c (dumps (num_repr c) (payload_json w p))"
    by (simp add: verify_checksum_def create_message_def calculate_checksum_def)
  then have "dumps (num_repr c) (payload_json w' p') = dumps (num_repr c) (payload_json w p)"
    using assms(1) by (simp add: inj_eq)
  then have "num_repr c (payload_altitude p') = num_repr c (payload_altitude p)
    \<and> num_repr c (latitude (gps_heap w' ! payload_gps p')) = num_repr c (latitude (gps_heap w ! payload_gps p))
    \<and> num_repr c (longitude (gps_heap w' ! payload_gps p')) = num_repr c (longitude (gps_heap w ! payload_gps p))"
    by (rule dumps_payload_json_inj [OF assms(2)])
  then have "num_repr c (lat (payload_pos w' p')) = num_repr c (lat (payload_pos w p))"
    and "num_repr c (lon (payload_pos w' p')) = num_repr c (lon (payload_pos w p))"
    and "num_repr c (alt (payload_pos w' p')) = num_repr c (alt (payload_pos w p))"
    by (simp_all add: payload_pos_def Let_def)
  then have "lat (payload_pos w' p') = lat (payload_pos w p)"
    and "lon (payload_pos w' p') = lon (payload_pos w p)"
    and "alt (payload_pos w' p') = alt (payload_pos w p)"
    by (auto dest: inj_onD [OF assms(3)])
  then have "payload_pos w' p' = payload_pos w p"
    by (simp add: pos.equality)
  with assms(4) show False ..
qed

lemma verify_checksum_frame:
  "gps_heap w' ! payload_gps (payload m) = gps_heap w ! payload_gps (payload m) \<Longrightarrow>
   verify_checksum c w' m = verify_checksum c w m"
  by (simp add: verify_checksum_def payload_json_def)

end
