(* ===== verification/Protocol.thy ===== *)
theory Protocol
  imports Message
begin

text \<open>
  The position-synchronisation protocol of \<open>src/code.py\<close>: the follower's correction
  \<open>adjust_position\<close> (lines 49--79), the dispatch \<open>process_message\<close> (lines 40--47),
  the checked receipt \<open>receive_message\<close> (lines 31--38) and the leader's broadcast
  \<open>send_position_update\<close> (lines 16--29), whose \<open>for\<close> loop is \<open>deliver\<close>. Every
  handler takes the world and returns an \<open>outcome\<close>, since \<open>adjust_position\<close> can raise
  \<open>ZeroDivisionError\<close> and the exception propagates through the callers.
\<close>

section \<open>Handlers\<close>

text \<open>
  Writing the follower's new position back: the two assignments into its
  \<open>gps_coordinates\<close> dict and the one into its \<open>altitude\<close> attribute (lines 75--77).
\<close>

definition set_position :: "world \<Rightarrow> ref \<Rightarrow> pos \<Rightarrow> world" where
  "set_position w r p =
     (let d = drones w ! r; g = gps_coordinates d
      in set_drone (set_gps w g ((gps_heap w ! g)\<lparr>latitude := lat p, longitude := lon p\<rparr>))
                   r (d\<lparr>altitude := alt p\<rparr>))"

definition adjust_position :: "world \<Rightarrow> ref \<Rightarrow> position_payload \<Rightarrow> world outcome" where
  "adjust_position w r leader_position =
     (let d = drones w ! r;
          me = position_of w r;
          ld = payload_pos w leader_position;
          distance = calculate_distance me ld;
          w1 = emit w (CurrentDistance (drone_id d) distance)
      in if distance = desired_distance then Inr (emit w1 (AtDesired (drone_id d)))
         else (case correction me ld distance of
                 Inl e \<Rightarrow> Inl (e, w1)
               | Inr p \<Rightarrow>
                   (let w2 = set_position w1 r p;
                        d2 = drones w2 ! r
                    in Inr (emit w2 (Adjusted (drone_id d2) (gps_heap w2 ! gps_coordinates d2)
                                              (altitude d2))))))"

definition process_message :: "world \<Rightarrow> ref \<Rightarrow> message \<Rightarrow> world outcome" where
  "process_message w r m =
     (if message_type (header m) = ''Position Update'' \<and> role (drones w ! r) = ''follower''
      then adjust_position w r (payload m)
      else Inr w)"

definition receive_message :: "codec \<Rightarrow> world \<Rightarrow> ref \<Rightarrow> message \<Rightarrow> world outcome" where
  "receive_message c w r m =
     (let d = drones w ! r
      in if verify_checksum c w m
         then (let w1 = set_drone w r (d\<lparr>received_messages := received_messages d @ [m]\<rparr>);
                   w2 = emit w1 (Received (drone_id d) m)
               in process_message w2 r m)
         else Inr (emit w (Corrupted (drone_id d))))"

text \<open>
  The loop of lines 27--29: one print and one \<open>receive_message\<close> per follower, in list
  order; an exception ends the loop and the broadcast.
\<close>

fun deliver :: "codec \<Rightarrow> ref \<Rightarrow> message \<Rightarrow> ref list \<Rightarrow> world \<Rightarrow> world outcome" where
  "deliver c r m [] w = Inr w"
| "deliver c r m (f # fs) w =
     (let w1 = emit w (Sending (drone_id (drones w ! r)) (drone_id (drones w ! f)))
      in case receive_message c w1 f m of
           Inl e \<Rightarrow> Inl e
         | Inr w2 \<Rightarrow> deliver c r m fs w2)"

definition send_position_update :: "codec \<Rightarrow> world \<Rightarrow> ref \<Rightarrow> ref list \<Rightarrow> world outcome" where
  "send_position_update c w r followers =
     (let d = drones w ! r
      in if role d \<noteq> ''leader'' then Inr (emit w (NotLeader (drone_id d)))
         else
           (let position_payload = \<lparr>payload_gps = gps_coordinates d, payload_altitude = altitude d\<rparr>;
                m = create_message c w r ''Position Update'' position_payload
                      (map (\<lambda>f. drone_id (drones w ! f)) followers)
            in deliver c r m followers w))"

section \<open>Frames\<close>

text \<open>
  What a handler run on drone \<open>f\<close> may change: the mutable attributes of \<open>f\<close> and the
  dict \<open>f\<close> owns. Every other drone and every other dict is left as it was.
\<close>

definition frame_on :: "world \<Rightarrow> world \<Rightarrow> ref \<Rightarrow> bool" where
  "frame_on w w' f \<longleftrightarrow>
     map drone_skel (drones w') = map drone_skel (drones w)
     \<and> length (gps_heap w') = length (gps_heap w)
     \<and> (\<forall>q. q \<noteq> f \<longrightarrow> drones w' ! q = drones w ! q)
     \<and> (\<forall>g. g \<noteq> gps_coordinates (drones w ! f) \<longrightarrow> gps_heap w' ! g = gps_heap w ! g)"

lemma frame_on_refl [simp]: "frame_on w w f"
  by (simp add: frame_on_def)

lemma frame_on_emit [simp]: "frame_on w (emit w' e) f = frame_on w w' f"
  by (simp add: frame_on_def)

lemma frame_on_emit_left [simp]: "frame_on (emit w e) w' f = frame_on w w' f"
  by (simp add: frame_on_def)

lemma set_position_emit: "set_position (emit w e) r p = emit (set_position w r p) e"
  by (simp add: set_position_def emit_def set_drone_def set_gps_def Let_def)

lemma set_position_simps [simp, frame_simps]:
  "drones (set_position w r p) = (drones w)[r := (drones w ! r)\<lparr>altitude := alt p\<rparr>]"
  "gps_heap (set_position w r p) = (gps_heap w)[gps_coordinates (drones w ! r) :=
     (gps_heap w ! gps_coordinates (drones w ! r))\<lparr>latitude := lat p, longitude := lon p\<rparr>]"
  "console (set_position w r p) = console w"
  by (simp_all add: set_position_def Let_def)

lemma frame_on_set_position:
  assumes "r < length (drones w)"
  shows "frame_on w (set_position w r p) r"
  using assms by (auto simp: frame_on_def map_update map_update_same)

lemma adjust_position_frame:
  assumes "r < length (drones w)"
  shows "frame_on w (final_state (adjust_position w r lp)) r
    \<and> received_messages (drones (final_state (adjust_position w r lp)) ! r) = received_messages (drones w ! r)"
  using assms frame_on_set_position [of r w]
  by (auto simp: adjust_position_def Let_def set_position_emit split: sum.split)

lemma frame_on_trans:
  assumes "f < length (drones w)" and "frame_on w w1 f" and "frame_on w1 w2 f"
  shows "frame_on w w2 f"
proof -
  have s1: "map drone_skel (drones w1) = map drone_skel (drones w)"
    and l1: "length (gps_heap w1) = length (gps_heap w)"
    and d1: "\<forall>q. q \<noteq> f \<longrightarrow> drones w1 ! q = drones w ! q"
    and g1: "\<forall>g. g \<noteq> gps_coordinates (drones w ! f) \<longrightarrow> gps_heap w1 ! g = gps_heap w ! g"
    using assms(2) by (simp_all add: frame_on_def)
  have s2: "map drone_skel (drones w2) = map drone_skel (drones w1)"
    and l2: "length (gps_heap w2) = length (gps_heap w1)"
    and d2: "\<forall>q. q \<noteq> f \<longrightarrow> drones w2 ! q = drones w1 ! q"
    and g2: "\<forall>g. g \<noteq> gps_coordinates (drones w1 ! f) \<longrightarrow> gps_heap w2 ! g = gps_heap w1 ! g"
    using assms(3) by (simp_all add: frame_on_def)
  have "gps_coordinates (drones w1 ! f) = gps_coordinates (drones w ! f)"
    using skel_eq_nth [OF s1 assms(1)] by blast
  with g1 g2 have "\<forall>g. g \<noteq> gps_coordinates (drones w ! f) \<longrightarrow> gps_heap w2 ! g = gps_heap w ! g"
    by simp
  with s1 s2 l1 l2 d1 d2 show ?thesis
    unfolding frame_on_def by simp
qed

lemma frame_on_set_log:
  "f < length (drones w) \<Longrightarrow> frame_on w (set_drone w f ((drones w ! f)\<lparr>received_messages := ms\<rparr>)) f"
  by (auto simp: frame_on_def map_update map_update_same)

lemma process_message_frame:
  assumes "r < length (drones w)"
  shows "frame_on w (final_state (process_message w r m)) r
    \<and> received_messages (drones (final_state (process_message w r m)) ! r) = received_messages (drones w ! r)"
  using assms adjust_position_frame by (simp add: process_message_def)

lemma process_message_not_follower:
  "role (drones w ! r) \<noteq> ''follower'' \<Longrightarrow> process_message w r m = Inr w"
  by (simp add: process_message_def)

lemma receive_message_verified:
  assumes "verify_checksum c w m" and "f < length (drones w)"
  defines "W \<equiv> final_state (receive_message c w f m)"
  shows "frame_on w W f \<and> received_messages (drones W ! f) = received_messages (drones w ! f) @ [m]
    \<and> (role (drones w ! f) \<noteq> ''follower'' \<longrightarrow> gps_heap W = gps_heap w \<and> drones W ! f = (drones w ! f)\<lparr>received_messages := received_messages (drones w ! f) @ [m]\<rparr>)"
proof -
  let ?w1 = "set_drone w f ((drones w ! f)\<lparr>received_messages := received_messages (drones w ! f) @ [m]\<rparr>)"
  let ?w2 = "emit ?w1 (Received (drone_id (drones w ! f)) m)"
  have W: "W = final_state (process_message ?w2 f m)"
    using assms(1) by (simp add: W_def receive_message_def Let_def)
  have f2: "f < length (drones ?w2)" using assms(2) by simp
  have a: "frame_on w ?w2 f" using assms(2) by (simp add: frame_on_set_log)
  have b: "frame_on ?w2 W f \<and> received_messages (drones W ! f) = received_messages (drones ?w2 ! f)"
    unfolding W using f2 by (rule process_message_frame)
  have "frame_on w W f"
    using frame_on_trans [OF assms(2) a] b by blast
  moreover have "received_messages (drones W ! f) = received_messages (drones w ! f) @ [m]"
    using b assms(2) by simp
  moreover have "role (drones w ! f) \<noteq> ''follower'' \<Longrightarrow> W = ?w2"
    using assms(2) by (simp add: W process_message_not_follower)
  ultimately show ?thesis
    using assms(2) by auto
qed

section \<open>Handler properties\<close>

text \<open>
  C6: The correction raises \<open>ZeroDivisionError\<close> (the division by
  \<open>vector_length\<close> at lines 68--70) exactly when the follower's position and the position the
  payload denotes coincide in latitude, longitude and altitude; in every other case
  \<open>adjust_position\<close> returns normally.
\<close>

lemma adjust_position_raises_iff:
  "(\<exists>e w'. adjust_position w r lp = Inl (e, w')) \<longleftrightarrow> position_of w r = payload_pos w lp"
proof
  assume "\<exists>e w'. adjust_position w r lp = Inl (e, w')"
  then obtain e w' where "adjust_position w r lp = Inl (e, w')" by blast
  then have "\<exists>e'. correction (position_of w r) (payload_pos w lp)
      (calculate_distance (position_of w r) (payload_pos w lp)) = Inl e'"
    by (auto simp: adjust_position_def Let_def split: if_splits sum.splits)
  then show "position_of w r = payload_pos w lp"
    by (auto simp: correction_Inl_iff pos_eq_iff)
next
  assume eq: "position_of w r = payload_pos w lp"
  then have "correction (position_of w r) (payload_pos w lp) 0 = Inl ZeroDivisionError"
    by (simp add: correction_Inl_iff)
  with eq show "\<exists>e w'. adjust_position w r lp = Inl (e, w')"
    by (simp add: adjust_position_def Let_def desired_distance_def)
qed

text \<open>
  C7: When the computed distance equals the desired standoff of 3.0 metres
  exactly, \<open>adjust_position\<close> takes the early return of lines 56--58: the state after it
  is the state before it with exactly the two lines "current distance" and "is at the
  desired distance" printed, and no "adjusted position" line. No drone and no dict is
  written.
\<close>

lemma adjust_position_at_desired:
  assumes "calculate_distance (position_of w r) (payload_pos w lp) = desired_distance"
  shows "adjust_position w r lp =
           Inr (emit (emit w (CurrentDistance (drone_id (drones w ! r)) desired_distance))
                  (AtDesired (drone_id (drones w ! r))))"
  using assms by (simp add: adjust_position_def Let_def)

text \<open>
  C4: A message whose checksum does not match its payload is dropped: no
  drone and no dict changes, the message is not logged, and the only effect is the
  "received corrupted message" line (lines 37--38).
\<close>

lemma receive_corrupted:
  assumes "\<not> verify_checksum c w m"
  shows "\<exists>W. receive_message c w f m = Inr W \<and> drones W = drones w \<and> gps_heap W = gps_heap w
           \<and> console W = console w @ [Corrupted (drone_id (drones w ! f))]"
  using assms by (simp add: receive_message_def)

text \<open>
  C10: A valid message that is not a \<open>"Position Update"\<close>, or that reaches a
  drone whose role is not \<open>"follower"\<close>, is appended to the receiver's log and has no
  other effect on drones or dicts (lines 33--36 and 45).
\<close>

lemma receive_no_adjust:
  assumes "verify_checksum c w m" and "f < length (drones w)"
    and "message_type (header m) \<noteq> ''Position Update'' \<or> role (drones w ! f) \<noteq> ''follower''"
  shows "\<exists>W. receive_message c w f m = Inr W \<and> gps_heap W = gps_heap w
           \<and> drones W = (drones w)[f := (drones w ! f)\<lparr>received_messages := received_messages (drones w ! f) @ [m]\<rparr>]"
  using assms by (auto simp: receive_message_def process_message_def Let_def)

section \<open>The broadcast loop\<close>

lemma receive_keeps_leader:
  assumes dist: "distinct (map gps_coordinates (drones w))"
    and r: "r < length (drones w)" and lead: "role (drones w ! r) = ''leader''"
    and f: "f < length (drones w)" and ok: "verify_checksum c w m"
  defines "W \<equiv> final_state (receive_message c w f m)"
  shows "map drone_skel (drones W) = map drone_skel (drones w)
    \<and> length (gps_heap W) = length (gps_heap w)
    \<and> gps_heap W ! gps_coordinates (drones w ! r) = gps_heap w ! gps_coordinates (drones w ! r)
    \<and> altitude (drones W ! r) = altitude (drones w ! r)
    \<and> (\<forall>q. received_messages (drones W ! q) =
            received_messages (drones w ! q) @ (if q = f then [m] else []))"
proof -
  have rv: "frame_on w W f \<and> received_messages (drones W ! f) = received_messages (drones w ! f) @ [m]
    \<and> (role (drones w ! f) \<noteq> ''follower'' \<longrightarrow> gps_heap W = gps_heap w
         \<and> drones W ! f = (drones w ! f)\<lparr>received_messages := received_messages (drones w ! f) @ [m]\<rparr>)"
    unfolding W_def using ok f by (rule receive_message_verified)
  then have fr: "frame_on w W f" by blast
  have leader_cell: "gps_heap W ! gps_coordinates (drones w ! r) = gps_heap w ! gps_coordinates (drones w ! r)
      \<and> altitude (drones W ! r) = altitude (drones w ! r)"
  proof (cases "f = r")
    case True
    with rv lead show ?thesis by simp
  next
    case False
    then have "gps_coordinates (drones w ! r) \<noteq> gps_coordinates (drones w ! f)"
      using dist r f by (simp add: distinct_conv_nth)
    with fr False show ?thesis by (simp add: frame_on_def)
  qed
  have "\<forall>q. received_messages (drones W ! q) =
            received_messages (drones w ! q) @ (if q = f then [m] else [])"
    using rv fr by (simp add: frame_on_def)
  with fr leader_cell show ?thesis by (simp add: frame_on_def)
qed

lemma deliver_keeps_leader:
  assumes "distinct (map gps_coordinates (drones w))"
    and "r < length (drones w)" and "role (drones w ! r) = ''leader''"
    and "set fs \<subseteq> {..<length (drones w)}" and "verify_checksum c w m"
    and "payload_gps (payload m) = gps_coordinates (drones w ! r)"
  shows "map drone_skel (drones (final_state (deliver c r m fs w))) = map drone_skel (drones w)
    \<and> length (gps_heap (final_state (deliver c r m fs w))) = length (gps_heap w)
    \<and> gps_heap (final_state (deliver c r m fs w)) ! gps_coordinates (drones w ! r)
        = gps_heap w ! gps_coordinates (drones w ! r)
    \<and> altitude (drones (final_state (deliver c r m fs w)) ! r) = altitude (drones w ! r)
    \<and> (\<forall>W. deliver c r m fs w = Inr W \<longrightarrow>
         (\<forall>q. received_messages (drones W ! q) =
               received_messages (drones w ! q) @ replicate (count_list fs q) m))"
  using assms
proof (induction fs arbitrary: w)
  case Nil
  then show ?case by simp
next
  case (Cons f fs)
  let ?w1 = "emit w (Sending (drone_id (drones w ! r)) (drone_id (drones w ! f)))"
  let ?W2 = "final_state (receive_message c ?w1 f m)"
  have ok1: "verify_checksum c ?w1 m"
    using Cons.prems(5) by (simp add: verify_checksum_def payload_json_def)
  have f: "f < length (drones ?w1)" using Cons.prems(4) by simp
  have step: "map drone_skel (drones ?W2) = map drone_skel (drones w)
    \<and> length (gps_heap ?W2) = length (gps_heap w)
    \<and> gps_heap ?W2 ! gps_coordinates (drones w ! r) = gps_heap w ! gps_coordinates (drones w ! r)
    \<and> altitude (drones ?W2 ! r) = altitude (drones w ! r)
    \<and> (\<forall>q. received_messages (drones ?W2 ! q) =
            received_messages (drones w ! q) @ (if q = f then [m] else []))"
    using receive_keeps_leader [of ?w1 r f c m] Cons.prems(1-3) f ok1 by simp
  then have sk: "map drone_skel (drones ?W2) = map drone_skel (drones w)" by blast
  have len: "length (drones ?W2) = length (drones w)"
    using arg_cong [OF sk, of length] by simp
  have gr: "gps_coordinates (drones ?W2 ! r) = gps_coordinates (drones w ! r)"
    and rl: "role (drones ?W2 ! r) = role (drones w ! r)"
    using skel_eq_nth [OF sk Cons.prems(2)] by blast+
  have ok2: "verify_checksum c ?W2 m"
    using step Cons.prems(6) ok1 verify_checksum_frame [of ?W2 m ?w1 c] by simp
  have pre2: "distinct (map gps_coordinates (drones ?W2))" "r < length (drones ?W2)"
    "role (drones ?W2 ! r) = ''leader''" "set fs \<subseteq> {..<length (drones ?W2)}"
    "verify_checksum c ?W2 m" "payload_gps (payload m) = gps_coordinates (drones ?W2 ! r)"
    using Cons.prems skel_map_eq(1) [OF sk] len gr rl ok2 by simp_all
  show ?case
  proof (cases "receive_message c ?w1 f m")
    case (Inl e)
    then have "deliver c r m (f # fs) w = Inl e" by (simp add: Let_def)
    with step Inl show ?thesis by (cases e) simp
  next
    case (Inr W2)
    have W2: "?W2 = W2" using Inr by simp
    have d: "deliver c r m (f # fs) w = deliver c r m fs W2" using Inr by (simp add: Let_def)
    have IH: "map drone_skel (drones (final_state (deliver c r m fs W2))) = map drone_skel (drones W2)
      \<and> length (gps_heap (final_state (deliver c r m fs W2))) = length (gps_heap W2)
      \<and> gps_heap (final_state (deliver c r m fs W2)) ! gps_coordinates (drones w ! r)
          = gps_heap W2 ! gps_coordinates (drones w ! r)
      \<and> altitude (drones (final_state (deliver c r m fs W2)) ! r) = altitude (drones W2 ! r)
      \<and> (\<forall>W. deliver c r m fs W2 = Inr W \<longrightarrow>
           (\<forall>q. received_messages (drones W ! q) =
                 received_messages (drones W2 ! q) @ replicate (count_list fs q) m))"
      using Cons.IH [OF pre2] gr unfolding W2 by simp
    have st: "map drone_skel (drones W2) = map drone_skel (drones w)
      \<and> length (gps_heap W2) = length (gps_heap w)
      \<and> gps_heap W2 ! gps_coordinates (drones w ! r) = gps_heap w ! gps_coordinates (drones w ! r)
      \<and> altitude (drones W2 ! r) = altitude (drones w ! r)
      \<and> (\<forall>q. received_messages (drones W2 ! q) =
              received_messages (drones w ! q) @ (if q = f then [m] else []))"
      using step unfolding W2 .
    have logs: "\<forall>W. deliver c r m fs W2 = Inr W \<longrightarrow>
           (\<forall>q. received_messages (drones W ! q) =
                 received_messages (drones w ! q) @ replicate (count_list (f # fs) q) m)"
      using IH st by (auto simp: replicate_add [symmetric])
    show ?thesis unfolding d using IH st logs by simp
  qed
qed

lemma send_position_update_frame:
  fixes c :: codec
  assumes "wf_world w" and "r < length (drones w)" and "set fs \<subseteq> {..<length (drones w)}"
  defines "W \<equiv> final_state (send_position_update c w r fs)"
  shows "map drone_skel (drones W) = map drone_skel (drones w)
    \<and> gps_heap W ! gps_coordinates (drones w ! r) = gps_heap w ! gps_coordinates (drones w ! r)
    \<and> altitude (drones W ! r) = altitude (drones w ! r)"
proof (cases "role (drones w ! r) = ''leader''")
  case False
  then show ?thesis by (simp add: W_def send_position_update_def)
next
  case True
  let ?p = "\<lparr>payload_gps = gps_coordinates (drones w ! r), payload_altitude = altitude (drones w ! r)\<rparr>"
  let ?m = "create_message c w r ''Position Update'' ?p (map (\<lambda>f. drone_id (drones w ! f)) fs)"
  have d: "distinct (map gps_coordinates (drones w))" using assms(1) by (simp add: wf_world_def)
  have "verify_checksum c w ?m" by (rule verify_create_message)
  moreover have "payload_gps (payload ?m) = gps_coordinates (drones w ! r)"
    by (simp add: create_message_def)
  ultimately have "map drone_skel (drones (final_state (deliver c r ?m fs w))) = map drone_skel (drones w)
    \<and> length (gps_heap (final_state (deliver c r ?m fs w))) = length (gps_heap w)
    \<and> gps_heap (final_state (deliver c r ?m fs w)) ! gps_coordinates (drones w ! r)
        = gps_heap w ! gps_coordinates (drones w ! r)
    \<and> altitude (drones (final_state (deliver c r ?m fs w)) ! r) = altitude (drones w ! r)"
    using deliver_keeps_leader [OF d assms(2) True assms(3)] by blast
  moreover have "W = final_state (deliver c r ?m fs w)"
    using True by (simp add: W_def send_position_update_def Let_def)
  ultimately show ?thesis by simp
qed

section \<open>The heap invariant\<close>

lemma wf_world_transfer:
  assumes "wf_world w"
    and "map drone_skel (drones W) = map drone_skel (drones w)"
    and "length (gps_heap W) = length (gps_heap w)"
    and "\<forall>q < length (drones w). set (received_messages (drones W ! q)) \<subseteq> set (received_messages (drones w ! q)) \<union> {m}"
    and "msg_ok w m"
  shows "wf_world W"
proof -
  have len: "length (drones W) = length (drones w)"
    using arg_cong [OF assms(2), of length] by simp
  have ok: "msg_ok W = msg_ok w" using assms(3) by (simp add: msg_ok_def fun_eq_iff)
  have g: "map gps_coordinates (drones W) = map gps_coordinates (drones w)"
    using assms(2) by (rule skel_map_eq(1))
  have each: "gps_coordinates (drones W ! q) < length (gps_heap W)
      \<and> list_all (msg_ok W) (received_messages (drones W ! q))"
    if q: "q < length (drones W)" for q
  proof -
    have q': "q < length (drones w)" using q len by simp
    have "gps_coordinates (drones W ! q) = gps_coordinates (drones w ! q)"
      using skel_eq_nth [OF assms(2) q'] by blast
    moreover have old: "gps_coordinates (drones w ! q) < length (gps_heap w)
        \<and> list_all (msg_ok w) (received_messages (drones w ! q))"
      using assms(1) q' by (simp add: wf_world_def list_all_length)
    moreover have "list_all (msg_ok W) (received_messages (drones W ! q))"
      using old assms(4,5) q' ok by (fastforce simp: list_all_iff)
    ultimately show ?thesis using assms(3) by simp
  qed
  then have "list_all (\<lambda>d. gps_coordinates d < length (gps_heap W) \<and> list_all (msg_ok W) (received_messages d)) (drones W)"
    by (simp add: list_all_length)
  moreover have "distinct (map gps_coordinates (drones W))"
    using assms(1) g by (simp add: wf_world_def)
  ultimately show ?thesis by (simp add: wf_world_def)
qed

lemma receive_message_logs:
  fixes c :: codec and m :: message
  assumes "f < length (drones w)"
  defines "W \<equiv> final_state (receive_message c w f m)"
  shows "map drone_skel (drones W) = map drone_skel (drones w)
    \<and> length (gps_heap W) = length (gps_heap w)
    \<and> (\<forall>q. set (received_messages (drones W ! q)) \<subseteq> set (received_messages (drones w ! q)) \<union> {m})"
proof (cases "verify_checksum c w m")
  case True
  have fr: "frame_on w W f \<and> received_messages (drones W ! f) = received_messages (drones w ! f) @ [m]"
    using receive_message_verified [OF True assms(1)] unfolding W_def by blast
  have "set (received_messages (drones W ! q)) \<subseteq> set (received_messages (drones w ! q)) \<union> {m}" for q
    using fr by (cases "q = f") (auto simp: frame_on_def)
  with fr show ?thesis by (simp add: frame_on_def)
next
  case False
  then show ?thesis by (auto simp: W_def receive_message_def)
qed

lemma deliver_logs:
  assumes "set fs \<subseteq> {..<length (drones w)}"
  shows "map drone_skel (drones (final_state (deliver c r m fs w))) = map drone_skel (drones w)
    \<and> length (gps_heap (final_state (deliver c r m fs w))) = length (gps_heap w)
    \<and> (\<forall>q. set (received_messages (drones (final_state (deliver c r m fs w)) ! q))
            \<subseteq> set (received_messages (drones w ! q)) \<union> {m})"
  using assms
proof (induction fs arbitrary: w)
  case Nil
  then show ?case by auto
next
  case (Cons f fs)
  let ?w1 = "emit w (Sending (drone_id (drones w ! r)) (drone_id (drones w ! f)))"
  let ?W2 = "final_state (receive_message c ?w1 f m)"
  have f: "f < length (drones ?w1)" using Cons.prems by simp
  have st: "map drone_skel (drones ?W2) = map drone_skel (drones w)
    \<and> length (gps_heap ?W2) = length (gps_heap w)
    \<and> (\<forall>q. set (received_messages (drones ?W2 ! q)) \<subseteq> set (received_messages (drones w ! q)) \<union> {m})"
    using receive_message_logs [OF f, of c m] by simp
  have len: "length (drones ?W2) = length (drones w)"
    using arg_cong [OF conjunct1 [OF st], of length] by simp
  show ?case
  proof (cases "receive_message c ?w1 f m")
    case (Inl e)
    with st show ?thesis by (cases e) (simp add: Let_def)
  next
    case (Inr W2)
    have W2: "?W2 = W2" using Inr by simp
    have d: "deliver c r m (f # fs) w = deliver c r m fs W2" using Inr by (simp add: Let_def)
    have "set fs \<subseteq> {..<length (drones W2)}" using Cons.prems len W2 by simp
    from Cons.IH [OF this] st show ?thesis unfolding d W2 by fastforce
  qed
qed

lemma msg_ok_emit [simp]: "msg_ok (emit w e) = msg_ok w"
  by (simp add: fun_eq_iff msg_ok_def)

lemma wf_world_emit [simp]: "wf_world (emit w e) = wf_world w"
  by (simp add: wf_world_def)

text \<open>
  C15: Receiving a message whose payload refers to an allocated dict keeps the heap
  well-formed, whether the message is dropped, only logged, or applied by the follower.
\<close>

lemma wf_receive_message:
  assumes "wf_world w" and "msg_ok w m" and "f < length (drones w)"
  shows "wf_world (final_state (receive_message c w f m))"
proof -
  have "map drone_skel (drones (final_state (receive_message c w f m))) = map drone_skel (drones w)
    \<and> length (gps_heap (final_state (receive_message c w f m))) = length (gps_heap w)
    \<and> (\<forall>q. set (received_messages (drones (final_state (receive_message c w f m)) ! q))
          \<subseteq> set (received_messages (drones w ! q)) \<union> {m})"
    using assms(3) by (rule receive_message_logs)
  then show ?thesis
    using wf_world_transfer [OF assms(1) _ _ _ assms(2)] by blast
qed

section \<open>Delivery order\<close>

text \<open>
  Lines 27--29 print \<open>Sending\<close> before each delivery, and a handler prints none; the
  sequence of (sender, recipient) pairs on the console is the follower list in order, cut
  after the follower whose \<open>adjust_position\<close> raised. A raise happens only at a follower
  that sits exactly at the payload's position.
\<close>

lemma adjust_position_console:
  "sending_log (console (final_state (adjust_position w r lp))) = sending_log (console w)"
  by (auto simp: adjust_position_def Let_def set_position_emit split: sum.split)

lemma adjust_position_Inl:
  assumes "adjust_position w r lp = Inl (e, W)"
  shows "position_of W r = payload_pos W lp \<and> position_of w r = payload_pos w lp"
proof -
  from assms obtain e' where c: "correction (position_of w r) (payload_pos w lp)
      (calculate_distance (position_of w r) (payload_pos w lp)) = Inl e'"
    and W: "W = emit w (CurrentDistance (drone_id (drones w ! r))
                (calculate_distance (position_of w r) (payload_pos w lp)))"
    by (auto simp: adjust_position_def Let_def split: if_splits sum.splits)
  from c have "position_of w r = payload_pos w lp"
    by (auto simp: correction_Inl_iff pos_eq_iff)
  with W show ?thesis by simp
qed

lemma receive_message_console:
  "sending_log (console (final_state (receive_message c w f m))) = sending_log (console w)"
proof -
  have "sending_log (console (final_state (process_message w f m))) = sending_log (console w)" for w
    by (simp add: process_message_def adjust_position_console)
  then show ?thesis by (simp add: receive_message_def Let_def)
qed

lemma receive_message_Inl:
  assumes "receive_message c w f m = Inl (e, W)"
  shows "position_of W f = payload_pos W (payload m)"
  using assms adjust_position_Inl
  by (auto simp: receive_message_def process_message_def Let_def split: if_splits)

lemma ids_stable:
  assumes "map drone_skel (drones W) = map drone_skel (drones w)"
    and "r < length (drones w)" and "set fs \<subseteq> {..<length (drones w)}"
  shows "map (\<lambda>f. (drone_id (drones W ! r), drone_id (drones W ! f))) fs
       = map (\<lambda>f. (drone_id (drones w ! r), drone_id (drones w ! f))) fs"
proof -
  have "drone_id (drones W ! q) = drone_id (drones w ! q)" if "q < length (drones w)" for q
    using skel_eq_nth [OF assms(1) that] by blast
  note eq = this
  show ?thesis
  proof (rule map_cong [OF refl])
    fix q assume "q \<in> set fs"
    then have "q < length (drones w)" using assms(3) by auto
    then show "(drone_id (drones W ! r), drone_id (drones W ! q))
             = (drone_id (drones w ! r), drone_id (drones w ! q))"
      using eq assms(2) by simp
  qed
qed

lemma deliver_trace:
  assumes "set fs \<subseteq> {..<length (drones w)}" and "r < length (drones w)"
  shows "(\<forall>W. deliver c r m fs w = Inr W \<longrightarrow>
            sending_log (console W) = sending_log (console w)
              @ map (\<lambda>f. (drone_id (drones w ! r), drone_id (drones w ! f))) fs)
    \<and> (\<forall>e W. deliver c r m fs w = Inl (e, W) \<longrightarrow>
         (\<exists>k < length fs. sending_log (console W) = sending_log (console w)
              @ map (\<lambda>f. (drone_id (drones w ! r), drone_id (drones w ! f))) (take (Suc k) fs)
            \<and> position_of W (fs ! k) = payload_pos W (payload m)))"
  using assms
proof (induction fs arbitrary: w)
  case Nil
  then show ?case by simp
next
  case (Cons f fs)
  let ?id = "\<lambda>w f. (drone_id (drones w ! r), drone_id (drones w ! f))"
  let ?w1 = "emit w (Sending (drone_id (drones w ! r)) (drone_id (drones w ! f)))"
  let ?W2 = "final_state (receive_message c ?w1 f m)"
  have f: "f < length (drones ?w1)" using Cons.prems(1) by simp
  have st: "map drone_skel (drones ?W2) = map drone_skel (drones w)"
    using receive_message_logs [OF f, of c m] by simp
  have len: "length (drones ?W2) = length (drones w)"
    using arg_cong [OF st, of length] by simp
  have sl: "sending_log (console ?W2) = sending_log (console w) @ [?id w f]"
    using receive_message_console [of c ?w1 f m] by simp
  have ids: "map (?id ?W2) fs = map (?id w) fs"
    using Cons.prems(1) by (intro ids_stable [OF st Cons.prems(2)]) simp
  show ?case
  proof (cases "receive_message c ?w1 f m")
    case (Inl x)
    obtain e W where x: "x = (e, W)" by (cases x)
    have "position_of W f = payload_pos W (payload m)"
      using receive_message_Inl Inl x by blast
    moreover have "sending_log (console W) = sending_log (console w) @ [?id w f]"
      using sl Inl x by simp
    ultimately have "\<exists>k < length (f # fs). sending_log (console W) = sending_log (console w)
              @ map (?id w) (take (Suc k) (f # fs)) \<and> position_of W ((f # fs) ! k) = payload_pos W (payload m)"
      by (intro exI [of _ 0]) simp
    with Inl x show ?thesis by (simp add: Let_def)
  next
    case (Inr W2)
    have W2: "?W2 = W2" using Inr by simp
    have d: "deliver c r m (f # fs) w = deliver c r m fs W2" using Inr by (simp add: Let_def)
    have pre: "set fs \<subseteq> {..<length (drones W2)}" "r < length (drones W2)"
      using Cons.prems len W2 by auto
    note IH = Cons.IH [OF pre]
    have A: "\<forall>W. deliver c r m fs W2 = Inr W \<longrightarrow>
        sending_log (console W) = sending_log (console w) @ map (?id w) (f # fs)"
      using IH sl ids unfolding W2 by simp
    have B: "\<forall>e W. deliver c r m fs W2 = Inl (e, W) \<longrightarrow>
         (\<exists>k < length (f # fs). sending_log (console W) = sending_log (console w)
              @ map (?id w) (take (Suc k) (f # fs)) \<and> position_of W ((f # fs) ! k) = payload_pos W (payload m))"
    proof (intro allI impI)
      fix e W assume "deliver c r m fs W2 = Inl (e, W)"
      with IH obtain k where k: "k < length fs"
        and t: "sending_log (console W) = sending_log (console W2) @ map (?id W2) (take (Suc k) fs)"
        and p: "position_of W (fs ! k) = payload_pos W (payload m)" by blast
      have "map (?id W2) (take (Suc k) fs) = map (?id w) (take (Suc k) fs)"
        using arg_cong [OF ids [unfolded W2], of "take (Suc k)"] by (simp only: take_map)
      with t sl W2 have "sending_log (console W) = sending_log (console w) @ map (?id w) (take (Suc (Suc k)) (f # fs))"
        by simp
      with k p show "\<exists>k < length (f # fs). sending_log (console W) = sending_log (console w)
              @ map (?id w) (take (Suc k) (f # fs)) \<and> position_of W ((f # fs) ! k) = payload_pos W (payload m)"
        by (intro exI [of _ "Suc k"]) simp
    qed
    from A B show ?thesis unfolding d by blast
  qed
qed

section \<open>Broadcasts that complete\<close>

text \<open>
  A handler run on one follower moves no other drone and leaves the leader's dict alone; so
  a follower is still where it started when its turn comes, as long as it occurs once in the
  list, and the loop raises only if some listed follower starts at the payload's position.
\<close>

lemma frame_on_position:
  assumes "frame_on w W f" and "distinct (map gps_coordinates (drones w))"
    and "q < length (drones w)" and "f < length (drones w)" and "q \<noteq> f"
  shows "position_of W q = position_of w q"
proof -
  have "gps_coordinates (drones w ! q) \<noteq> gps_coordinates (drones w ! f)"
    using assms(2-5) by (simp add: distinct_conv_nth)
  then show ?thesis using assms(1,5) by (simp add: frame_on_def position_of_def Let_def)
qed

lemma receive_message_frame:
  assumes "f < length (drones w)"
  shows "frame_on w (final_state (receive_message c w f m)) f
    \<and> (role (drones w ! f) \<noteq> ''follower'' \<longrightarrow> gps_heap (final_state (receive_message c w f m)) = gps_heap w)"
proof (cases "verify_checksum c w m")
  case True
  then show ?thesis using receive_message_verified [OF True assms] by blast
next
  case False
  then show ?thesis by (simp add: receive_message_def Let_def)
qed

lemma receive_message_Inl_pre:
  assumes "receive_message c w f m = Inl (e, W)"
  shows "position_of w f = payload_pos w (payload m)"
proof -
  let ?w2 = "emit (set_drone w f ((drones w ! f)\<lparr>received_messages := received_messages (drones w ! f) @ [m]\<rparr>))
               (Received (drone_id (drones w ! f)) m)"
  have "adjust_position ?w2 f (payload m) = Inl (e, W)"
    using assms by (auto simp: receive_message_def process_message_def Let_def split: if_splits)
  then have "position_of ?w2 f = payload_pos ?w2 (payload m)"
    using adjust_position_Inl by blast
  moreover have "position_of ?w2 f = position_of w f"
    by (cases "f < length (drones w)") (simp_all add: position_of_def Let_def list_update_beyond)
  moreover have "payload_pos ?w2 (payload m) = payload_pos w (payload m)"
    by (simp add: payload_pos_def)
  ultimately show ?thesis by simp
qed

lemma deliver_no_raise:
  assumes "distinct (map gps_coordinates (drones w))" and "r < length (drones w)"
    and "role (drones w ! r) = ''leader''" and "payload_gps (payload m) = gps_coordinates (drones w ! r)"
    and "set fs \<subseteq> {..<length (drones w)}" and "distinct fs"
    and "\<forall>f\<in>set fs. position_of w f \<noteq> payload_pos w (payload m)"
  shows "\<exists>W. deliver c r m fs w = Inr W"
  using assms
proof (induction fs arbitrary: w)
  case Nil
  then show ?case by simp
next
  case (Cons f fs)
  let ?w1 = "emit w (Sending (drone_id (drones w ! r)) (drone_id (drones w ! f)))"
  have f: "f < length (drones w)" using Cons.prems(5) by simp
  show ?case
  proof (cases "receive_message c ?w1 f m")
    case (Inl x)
    obtain e W where "x = (e, W)" by (cases x)
    with Inl have "position_of ?w1 f = payload_pos ?w1 (payload m)"
      using receive_message_Inl_pre by blast
    with Cons.prems(7) show ?thesis by simp
  next
    case (Inr W2)
    have rv: "frame_on w W2 f \<and> (role (drones w ! f) \<noteq> ''follower'' \<longrightarrow> gps_heap W2 = gps_heap w)"
      using receive_message_frame [of f ?w1 c m] f Inr by simp
    then have fr: "frame_on w W2 f" by blast
    have sk: "map drone_skel (drones W2) = map drone_skel (drones w)"
      using fr by (simp add: frame_on_def)
    have len: "length (drones W2) = length (drones w)"
      using arg_cong [OF sk, of length] by simp
    have rr: "role (drones W2 ! r) = ''leader'' \<and> gps_coordinates (drones W2 ! r) = gps_coordinates (drones w ! r)"
      using skel_eq_nth [OF sk Cons.prems(2)] Cons.prems(3) by simp
    have pp: "payload_pos W2 (payload m) = payload_pos w (payload m)"
    proof (cases "f = r")
      case True
      with rv Cons.prems(3) show ?thesis by (simp add: payload_pos_def)
    next
      case False
      then have "gps_coordinates (drones w ! r) \<noteq> gps_coordinates (drones w ! f)"
        using Cons.prems(1,2) f by (simp add: distinct_conv_nth)
      with fr Cons.prems(4) show ?thesis by (simp add: frame_on_def payload_pos_def)
    qed
    have pos: "\<forall>q\<in>set fs. position_of W2 q \<noteq> payload_pos W2 (payload m)"
    proof
      fix q assume q: "q \<in> set fs"
      then have "q \<noteq> f" and "q < length (drones w)" using Cons.prems(5,6) by auto
      then have "position_of W2 q = position_of w q"
        using frame_on_position [OF fr Cons.prems(1) _ f] by blast
      with pp q Cons.prems(7) show "position_of W2 q \<noteq> payload_pos W2 (payload m)" by simp
    qed
    have "\<exists>W. deliver c r m fs W2 = Inr W"
    proof (rule Cons.IH)
      show "distinct (map gps_coordinates (drones W2))"
        using skel_map_eq(1) [OF sk] Cons.prems(1) by simp
      show "r < length (drones W2)" using len Cons.prems(2) by simp
      show "role (drones W2 ! r) = ''leader''" using rr by blast
      show "payload_gps (payload m) = gps_coordinates (drones W2 ! r)" using rr Cons.prems(4) by simp
      show "set fs \<subseteq> {..<length (drones W2)}" using len Cons.prems(5) by simp
      show "distinct fs" using Cons.prems(6) by simp
      show "\<forall>q\<in>set fs. position_of W2 q \<noteq> payload_pos W2 (payload m)" by (rule pos)
    qed
    with Inr show ?thesis by (simp add: Let_def)
  qed
qed

section \<open>Positions after a broadcast\<close>

text \<open>
  The functional behaviour of a completed broadcast on positions: every listed follower
  has taken exactly one \<open>follow_step\<close> from where it started towards the payload's position,
  and every other drone is where it was.
\<close>

lemma adjust_position_Inr_pos:
  assumes "r < length (drones w)" and "gps_coordinates (drones w ! r) < length (gps_heap w)"
    and "adjust_position w r lp = Inr W"
  shows "follow_step (position_of w r) (payload_pos w lp) = Inr (position_of W r)"
  using assms
  by (auto simp: adjust_position_def follow_step_def Let_def position_of_def
           split: if_splits sum.splits)

lemma receive_message_position:
  assumes "f < length (drones w)" and "gps_coordinates (drones w ! f) < length (gps_heap w)"
    and "verify_checksum c w m" and "receive_message c w f m = Inr W"
  shows "(role (drones w ! f) = ''follower'' \<and> message_type (header m) = ''Position Update''
           \<longrightarrow> follow_step (position_of w f) (payload_pos w (payload m)) = Inr (position_of W f))
       \<and> (\<not> (role (drones w ! f) = ''follower'' \<and> message_type (header m) = ''Position Update'')
           \<longrightarrow> position_of W f = position_of w f)"
proof -
  let ?w2 = "emit (set_drone w f ((drones w ! f)\<lparr>received_messages := received_messages (drones w ! f) @ [m]\<rparr>))
               (Received (drone_id (drones w ! f)) m)"
  have pw: "process_message ?w2 f m = Inr W"
    using assms(3,4) by (simp add: receive_message_def Let_def)
  have same: "position_of ?w2 f = position_of w f" "payload_pos ?w2 (payload m) = payload_pos w (payload m)"
    using assms(1) by (simp_all add: position_of_def payload_pos_def Let_def)
  have f2: "f < length (drones ?w2)" "gps_coordinates (drones ?w2 ! f) < length (gps_heap ?w2)"
    using assms(1,2) by simp_all
  show ?thesis
  proof (cases "role (drones w ! f) = ''follower'' \<and> message_type (header m) = ''Position Update''")
    case True
    then have "adjust_position ?w2 f (payload m) = Inr W"
      using pw assms(1) by (simp add: process_message_def)
    from adjust_position_Inr_pos [OF f2 this] same True show ?thesis by simp
  next
    case False
    then have "W = ?w2" using pw assms(1) by (auto simp: process_message_def)
    with same False show ?thesis by auto
  qed
qed

lemma deliver_positions:
  assumes "distinct (map gps_coordinates (drones w))"
    and "\<forall>q < length (drones w). gps_coordinates (drones w ! q) < length (gps_heap w)"
    and "r < length (drones w)" and "role (drones w ! r) = ''leader''"
    and "payload_gps (payload m) = gps_coordinates (drones w ! r)"
    and "set fs \<subseteq> {..<length (drones w)}" and "distinct fs" and "verify_checksum c w m"
    and "message_type (header m) = ''Position Update''"
    and "deliver c r m fs w = Inr W"
  shows "\<forall>q < length (drones w).
           (q \<in> set fs \<and> role (drones w ! q) = ''follower''
              \<longrightarrow> follow_step (position_of w q) (payload_pos w (payload m)) = Inr (position_of W q))
         \<and> (q \<notin> set fs \<or> role (drones w ! q) \<noteq> ''follower'' \<longrightarrow> position_of W q = position_of w q)"
  using assms
proof (induction fs arbitrary: w)
  case Nil
  then show ?case by simp
next
  case (Cons f fs)
  let ?w1 = "emit w (Sending (drone_id (drones w ! r)) (drone_id (drones w ! f)))"
  have f: "f < length (drones w)" using Cons.prems(6) by simp
  obtain W2 where R: "receive_message c ?w1 f m = Inr W2" and D: "deliver c r m fs W2 = Inr W"
    using Cons.prems(10) by (auto simp: Let_def split: sum.splits)
  have ok1: "verify_checksum c ?w1 m" using Cons.prems(8) by (simp add: verify_checksum_def payload_json_def)
  have kl: "map drone_skel (drones W2) = map drone_skel (drones w)
    \<and> length (gps_heap W2) = length (gps_heap w)
    \<and> gps_heap W2 ! gps_coordinates (drones w ! r) = gps_heap w ! gps_coordinates (drones w ! r)
    \<and> altitude (drones W2 ! r) = altitude (drones w ! r)"
    using receive_keeps_leader [of ?w1 r f c m] Cons.prems(1,3,4) f ok1 R by simp
  then have sk: "map drone_skel (drones W2) = map drone_skel (drones w)" by blast
  have len: "length (drones W2) = length (drones w)"
    using arg_cong [OF sk, of length] by simp
  have sn: "drone_id (drones W2 ! q) = drone_id (drones w ! q) \<and> role (drones W2 ! q) = role (drones w ! q)
      \<and> gps_coordinates (drones W2 ! q) = gps_coordinates (drones w ! q)" if "q < length (drones w)" for q
    using skel_eq_nth [OF sk that] .
  have fr: "frame_on w W2 f"
    using receive_message_frame [of f ?w1 c m] f R by simp
  have pp: "payload_pos W2 (payload m) = payload_pos w (payload m)"
    using kl Cons.prems(5) by (simp add: payload_pos_def)
  have rp: "(role (drones w ! f) = ''follower'' \<and> message_type (header m) = ''Position Update''
           \<longrightarrow> follow_step (position_of w f) (payload_pos w (payload m)) = Inr (position_of W2 f))
       \<and> (\<not> (role (drones w ! f) = ''follower'' \<and> message_type (header m) = ''Position Update'')
           \<longrightarrow> position_of W2 f = position_of w f)"
    using receive_message_position [of f ?w1 c m W2] f Cons.prems(2) ok1 R by simp
  have IH: "\<forall>q < length (drones W2).
           (q \<in> set fs \<and> role (drones W2 ! q) = ''follower''
              \<longrightarrow> follow_step (position_of W2 q) (payload_pos W2 (payload m)) = Inr (position_of W q))
         \<and> (q \<notin> set fs \<or> role (drones W2 ! q) \<noteq> ''follower'' \<longrightarrow> position_of W q = position_of W2 q)"
  proof (rule Cons.IH)
    show "distinct (map gps_coordinates (drones W2))"
      using skel_map_eq(1) [OF sk] Cons.prems(1) by simp
    show "\<forall>q < length (drones W2). gps_coordinates (drones W2 ! q) < length (gps_heap W2)"
      using Cons.prems(2) sn kl len by simp
    show "r < length (drones W2)" using len Cons.prems(3) by simp
    show "role (drones W2 ! r) = ''leader''" using sn Cons.prems(3,4) by simp
    show "payload_gps (payload m) = gps_coordinates (drones W2 ! r)" using sn Cons.prems(3,5) by simp
    show "set fs \<subseteq> {..<length (drones W2)}" using len Cons.prems(6) by simp
    show "distinct fs" using Cons.prems(7) by simp
    show "verify_checksum c W2 m"
      using verify_checksum_frame [of W2 m w c] kl Cons.prems(5,8) by simp
    show "message_type (header m) = ''Position Update''" by (rule Cons.prems(9))
    show "deliver c r m fs W2 = Inr W" by (rule D)
  qed
  show ?case
  proof (intro allI impI)
    fix q assume q: "q < length (drones w)"
    show "(q \<in> set (f # fs) \<and> role (drones w ! q) = ''follower''
              \<longrightarrow> follow_step (position_of w q) (payload_pos w (payload m)) = Inr (position_of W q))
         \<and> (q \<notin> set (f # fs) \<or> role (drones w ! q) \<noteq> ''follower'' \<longrightarrow> position_of W q = position_of w q)"
    proof (cases "q = f")
      case True
      then have "q \<notin> set fs" using Cons.prems(7) by simp
      then have "position_of W q = position_of W2 q" using IH q len by simp
      with rp True Cons.prems(9) show ?thesis by simp
    next
      case False
      then have p2: "position_of W2 q = position_of w q"
        using frame_on_position [OF fr Cons.prems(1) q f] by simp
      have "(q \<in> set fs \<and> role (drones W2 ! q) = ''follower''
              \<longrightarrow> follow_step (position_of W2 q) (payload_pos W2 (payload m)) = Inr (position_of W q))
         \<and> (q \<notin> set fs \<or> role (drones W2 ! q) \<noteq> ''follower'' \<longrightarrow> position_of W q = position_of W2 q)"
        using IH q len by simp
      then show ?thesis using sn [OF q] pp p2 False by simp
    qed
  qed
qed

end
