(* ===== verification/Script.thy ===== *)
theory Script
  imports Protocol
begin

text \<open>
  The module-level script of \<open>src/code.py\<close> (lines 121--136): three drones built with the
  constructor, a broadcast from the leader to the two followers, one move of the leader, and a
  second broadcast. An exception escaping a broadcast ends the script, so the script is an
  \<open>outcome\<close> like the handlers.
\<close>

section \<open>The script\<close>

definition script_drones :: "(ref \<times> ref \<times> ref) \<times> world" where
  "script_drones =
     (let (drone_a, w1) = drone_init initial_world ''A'' ''leader'' 1.5 (0, 0, 0) (28.7041, 77.1025) 100;
          (drone_b, w2) = drone_init w1 ''B'' ''follower'' 2.0 (0, 0, 0) (28.7040, 77.1024) 100;
          (drone_c, w3) = drone_init w2 ''C'' ''follower'' 1.8 (0, 0, 0) (28.7042, 77.1026) 100
      in ((drone_a, drone_b, drone_c), w3))"

definition main_script :: "codec \<Rightarrow> world outcome" where
  "main_script c =
     (let ((drone_a, drone_b, drone_c), w) = script_drones;
          followers = [drone_b, drone_c]
      in case send_position_update c w drone_a followers of
           Inl e \<Rightarrow> Inl e
         | Inr w1 \<Rightarrow>
             (let w2 = update_position w1 drone_a 0.00001 0.00001 0
              in send_position_update c w2 drone_a followers))"

section \<open>The start of the script\<close>

lemma script_drones_refs: "fst script_drones = (0, 1, 2)"
  by (simp add: script_drones_def drone_init_def initial_world_def Let_def)

lemma script_start:
  defines "w \<equiv> snd script_drones"
  shows "length (drones w) = 3" "length (gps_heap w) = 3"
    "distinct (map gps_coordinates (drones w))"
    "\<forall>q < length (drones w). gps_coordinates (drones w ! q) < length (gps_heap w)"
    "role (drones w ! 0) = ''leader''" "role (drones w ! 1) = ''follower''" "role (drones w ! 2) = ''follower''"
    "position_of w 0 = \<lparr>lat = 28.7041, lon = 77.1025, alt = 100\<rparr>"
    "position_of w 1 = \<lparr>lat = 28.7040, lon = 77.1024, alt = 100\<rparr>"
    "position_of w 2 = \<lparr>lat = 28.7042, lon = 77.1026, alt = 100\<rparr>"
    "map gps_coordinates (drones w) = [0, 1, 2]"
  by (simp_all add: w_def script_drones_def drone_init_def initial_world_def Let_def position_of_def
      less_Suc_eq numeral_3_eq_3 nth_append)

section \<open>A broadcast of the script\<close>

text \<open>
  What the script needs of one broadcast from the leader: it completes, keeps the heap's
  shape, and moves each listed follower by one \<open>follow_step\<close>.
\<close>

lemma leader_broadcast:
  assumes dist: "distinct (map gps_coordinates (drones w))"
    and inb: "\<forall>q < length (drones w). gps_coordinates (drones w ! q) < length (gps_heap w)"
    and r: "r < length (drones w)" and lead: "role (drones w ! r) = ''leader''"
    and fs: "set fs \<subseteq> {..<length (drones w)}" and "distinct fs"
    and apart: "\<forall>f\<in>set fs. position_of w f \<noteq> position_of w r"
  shows "\<exists>W. send_position_update c w r fs = Inr W
    \<and> map drone_skel (drones W) = map drone_skel (drones w) \<and> length (gps_heap W) = length (gps_heap w)
    \<and> (\<forall>q < length (drones w).
           (q \<in> set fs \<and> role (drones w ! q) = ''follower''
              \<longrightarrow> follow_step (position_of w q) (position_of w r) = Inr (position_of W q))
         \<and> (q \<notin> set fs \<or> role (drones w ! q) \<noteq> ''follower'' \<longrightarrow> position_of W q = position_of w q))"
proof -
  let ?p = "\<lparr>payload_gps = gps_coordinates (drones w ! r), payload_altitude = altitude (drones w ! r)\<rparr>"
  let ?m = "create_message c w r ''Position Update'' ?p (map (\<lambda>f. drone_id (drones w ! f)) fs)"
  have pg: "payload_gps (payload ?m) = gps_coordinates (drones w ! r)"
    and mt: "message_type (header ?m) = ''Position Update''"
    and pp: "payload_pos w (payload ?m) = position_of w r"
    by (simp_all add: payload_pos_def position_of_def create_message_def Let_def)
  have sp: "send_position_update c w r fs = deliver c r ?m fs w"
    using lead by (simp add: send_position_update_def Let_def)
  obtain W where d: "deliver c r ?m fs w = Inr W"
    using deliver_no_raise [OF dist r lead pg fs assms(6)] apart pp by auto
  have "map drone_skel (drones W) = map drone_skel (drones w) \<and> length (gps_heap W) = length (gps_heap w)"
    using deliver_keeps_leader [OF dist r lead fs verify_create_message pg] d by simp
  moreover have "\<forall>q < length (drones w).
           (q \<in> set fs \<and> role (drones w ! q) = ''follower''
              \<longrightarrow> follow_step (position_of w q) (position_of w r) = Inr (position_of W q))
         \<and> (q \<notin> set fs \<or> role (drones w ! q) \<noteq> ''follower'' \<longrightarrow> position_of W q = position_of w q)"
    using deliver_positions [OF dist inb r lead pg fs assms(6) verify_create_message mt d] unfolding pp .
  ultimately show ?thesis using sp d by simp
qed

lemma update_position_shape:
  "map drone_skel (drones (update_position w r a b c)) = map drone_skel (drones w)
   \<and> length (gps_heap (update_position w r a b c)) = length (gps_heap w)"
  by (cases "r < length (drones w)")
    (simp_all add: update_position_def Let_def map_update map_update_same list_update_beyond)

lemma main_script_unfold:
  "main_script c =
     (case send_position_update c (snd script_drones) 0 [1, 2] of
        Inl e \<Rightarrow> Inl e
      | Inr w1 \<Rightarrow> send_position_update c (update_position w1 0 0.00001 0.00001 0) 0 [1, 2])"
proof -
  obtain W where e: "script_drones = ((0, 1, 2), W)"
    using script_drones_refs by (metis prod.collapse)
  show ?thesis unfolding main_script_def e by (simp add: Let_def split: sum.split)
qed

section \<open>The first broadcast\<close>

lemma diag_step_pos:
  assumes "follow_step me ld = Inr p" and "lat ld - lat me = t" and "lon ld - lon me = t"
    and "alt ld = alt me" and "t \<noteq> 0"
  shows "p = \<lparr>lat = lat me + sgn t * (calculate_distance me ld - desired_distance) / sqrt 2,
           lon = lon me + sgn t * (calculate_distance me ld - desired_distance) / sqrt 2, alt = alt me\<rparr>"
  using follow_step_diag [OF assms(2-5)] assms(1) by simp

lemma script_first_broadcast:
  "\<exists>W1. send_position_update c (snd script_drones) 0 [1, 2] = Inr W1
     \<and> map drone_skel (drones W1) = map drone_skel (drones (snd script_drones))
     \<and> length (gps_heap W1) = 3
     \<and> position_of W1 0 = \<lparr>lat = 28.7041, lon = 77.1025, alt = 100\<rparr>
     \<and> (\<exists>b. 14 < b \<and> b < 16 \<and> position_of W1 1 =
           \<lparr>lat = 28.7040 + (b - 3) / sqrt 2, lon = 77.1024 + (b - 3) / sqrt 2, alt = 100\<rparr>)
     \<and> (\<exists>b. 14 < b \<and> b < 16 \<and> position_of W1 2 =
           \<lparr>lat = 28.7042 + (3 - b) / sqrt 2, lon = 77.1026 + (3 - b) / sqrt 2, alt = 100\<rparr>)"
proof -
  let ?w = "snd script_drones"
  note st = script_start
  have fs: "set [1::nat, 2] \<subseteq> {..<length (drones ?w)}" using st(1) by simp
  have apart: "\<forall>f\<in>set [1::nat, 2]. position_of ?w f \<noteq> position_of ?w 0"
    using st(8-10) by simp
  obtain W1 where W1: "send_position_update c ?w 0 [1, 2] = Inr W1"
    and sk: "map drone_skel (drones W1) = map drone_skel (drones ?w)"
    and gl: "length (gps_heap W1) = length (gps_heap ?w)"
    and all: "\<forall>q < length (drones ?w).
           (q \<in> set [1, 2] \<and> role (drones ?w ! q) = ''follower''
              \<longrightarrow> follow_step (position_of ?w q) (position_of ?w 0) = Inr (position_of W1 q))
         \<and> (q \<notin> set [1, 2] \<or> role (drones ?w ! q) \<noteq> ''follower''
              \<longrightarrow> position_of W1 q = position_of ?w q)"
    using leader_broadcast [OF st(3,4) _ st(5) fs _ apart, of c] st(1) by auto
  have a: "position_of W1 0 = \<lparr>lat = 28.7041, lon = 77.1025, alt = 100\<rparr>"
    using all [rule_format, of 0] st(1,8) by simp
  have fb: "follow_step (position_of ?w 1) (position_of ?w 0) = Inr (position_of W1 1)"
    using all [rule_format, of 1] st(1,6) by simp
  have fc: "follow_step (position_of ?w 2) (position_of ?w 0) = Inr (position_of W1 2)"
    using all [rule_format, of 2] st(1,7) by simp
  let ?db = "calculate_distance (position_of ?w 1) (position_of ?w 0)"
  let ?dc = "calculate_distance (position_of ?w 2) (position_of ?w 0)"
  have "14 < ?db \<and> ?db < 16" unfolding st(9,8) by (rule distance_diag_bounds) simp_all
  moreover have "position_of W1 1 =
      \<lparr>lat = 28.7040 + (?db - 3) / sqrt 2, lon = 77.1024 + (?db - 3) / sqrt 2, alt = 100\<rparr>"
    using diag_step_pos [OF fb, of "1 / 10000"] st(8,9) by (simp add: desired_distance_def)
  ultimately have b: "\<exists>b. 14 < b \<and> b < 16 \<and> position_of W1 1 =
      \<lparr>lat = 28.7040 + (b - 3) / sqrt 2, lon = 77.1024 + (b - 3) / sqrt 2, alt = 100\<rparr>" by blast
  have "14 < ?dc \<and> ?dc < 16" unfolding st(10,8) by (rule distance_diag_bounds) simp_all
  moreover have "position_of W1 2 =
      \<lparr>lat = 28.7042 + (3 - ?dc) / sqrt 2, lon = 77.1026 + (3 - ?dc) / sqrt 2, alt = 100\<rparr>"
    using diag_step_pos [OF fc, of "- 1 / 10000"] st(8,10) by (simp add: desired_distance_def)
  ultimately have c: "\<exists>b. 14 < b \<and> b < 16 \<and> position_of W1 2 =
      \<lparr>lat = 28.7042 + (3 - b) / sqrt 2, lon = 77.1026 + (3 - b) / sqrt 2, alt = 100\<rparr>" by blast
  show ?thesis using W1 sk gl st(2) a b c by simp
qed

section \<open>The move and the second broadcast\<close>

lemma move_leader:
  assumes "map gps_coordinates (drones w) = [0, 1, 2]" and "length (gps_heap w) = 3"
  shows "position_of (update_position w 0 a b 0) 0 =
           \<lparr>lat = lat (position_of w 0) + a, lon = lon (position_of w 0) + b, alt = alt (position_of w 0)\<rparr>"
    "position_of (update_position w 0 a b 0) 1 = position_of w 1"
    "position_of (update_position w 0 a b 0) 2 = position_of w 2"
proof -
  have l: "length (drones w) = 3" using arg_cong [OF assms(1), of length] by simp
  have g: "gps_coordinates (drones w ! 0) = 0" "gps_coordinates (drones w ! 1) = 1"
    "gps_coordinates (drones w ! 2) = 2"
    using nth_map [of _ "drones w" gps_coordinates] assms(1) l by (metis nth_Cons_0 nth_Cons_Suc
      One_nat_def numeral_2_eq_2 numeral_3_eq_3 zero_less_numeral one_less_numeral_iff
      semiring_norm(77) lessI less_trans)+
  show "position_of (update_position w 0 a b 0) 0 =
           \<lparr>lat = lat (position_of w 0) + a, lon = lon (position_of w 0) + b, alt = alt (position_of w 0)\<rparr>"
    "position_of (update_position w 0 a b 0) 1 = position_of w 1"
    "position_of (update_position w 0 a b 0) 2 = position_of w 2"
    using g l assms(2) by (simp_all add: update_position_def position_of_def Let_def nth_list_update)
qed

lemma step_gt: "14 < (b::real) \<Longrightarrow> 71 / 10 < (b - 3) / sqrt 2"
proof -
  assume "14 < b"
  have s2: "0 < sqrt (2::real)" "sqrt (2::real) < 3 / 2" using sqrt2_lt by simp_all
  have "71 / 10 * sqrt 2 < 11" using s2 by simp
  also have "\<dots> < b - 3" using \<open>14 < b\<close> by simp
  finally show ?thesis using s2 by (simp add: field_simps)
qed

lemma abs_gap: "71 / 10 < (x::real) \<Longrightarrow> 0 \<le> e \<Longrightarrow> e < 1 / 10 \<Longrightarrow> 7 < \<bar>e - x\<bar> \<and> 7 < \<bar>x - e\<bar>"
  by (simp add: abs_if)

lemma script_second_broadcast:
  assumes sk: "map drone_skel (drones W1) = map drone_skel (drones (snd script_drones))"
    and gl: "length (gps_heap W1) = 3"
    and a: "position_of W1 0 = \<lparr>lat = 28.7041, lon = 77.1025, alt = 100\<rparr>"
    and b: "71 / 10 < x" "position_of W1 1 = \<lparr>lat = 28.7040 + x, lon = 77.1024 + x, alt = 100\<rparr>"
    and c: "71 / 10 < y" "position_of W1 2 = \<lparr>lat = 28.7042 - y, lon = 77.1026 - y, alt = 100\<rparr>"
  defines "w2 \<equiv> update_position W1 0 0.00001 0.00001 0"
  shows "\<exists>W. send_position_update c w2 0 [1, 2] = Inr W
     \<and> position_of W 0 = \<lparr>lat = 28.70411, lon = 77.10251, alt = 100\<rparr>
     \<and> 500000 < \<bar>lat (position_of W 0) - lat (position_of W 1)\<bar>
     \<and> 500000 < \<bar>lat (position_of W 0) - lat (position_of W 2)\<bar>"
proof -
  note st = script_start
  have sk2: "map drone_skel (drones w2) = map drone_skel (drones (snd script_drones))"
    and gl2: "length (gps_heap w2) = 3"
    using update_position_shape [of W1 0 "0.00001" "0.00001" 0] sk gl by (simp_all add: w2_def)
  have gps1: "map gps_coordinates (drones W1) = [0, 1, 2]" using skel_map_eq(1) [OF sk] st(11) by simp
  have gps2: "map gps_coordinates (drones w2) = [0, 1, 2]" using skel_map_eq(1) [OF sk2] st(11) by simp
  have l2: "length (drones w2) = 3" using arg_cong [OF gps2, of length] by simp
  have roles: "role (drones w2 ! 0) = ''leader''" "role (drones w2 ! 1) = ''follower''"
    "role (drones w2 ! 2) = ''follower''"
    using skel_eq_nth [OF sk2] st(1,5-7) by simp_all
  have inb: "\<forall>q < length (drones w2). gps_coordinates (drones w2 ! q) < length (gps_heap w2)"
  proof (intro allI impI)
    fix q assume q: "q < length (drones w2)"
    then have "gps_coordinates (drones w2 ! q) = [0::nat, 1, 2] ! q" using gps2 by (metis nth_map)
    moreover have "q = 0 \<or> q = 1 \<or> q = 2" using q l2 by auto
    then have "[0::nat, 1, 2] ! q < 3" by auto
    ultimately show "gps_coordinates (drones w2 ! q) < length (gps_heap w2)" using gl2 by simp
  qed
  have pa1: "position_of w2 0 = \<lparr>lat = 28.70411, lon = 77.10251, alt = 100\<rparr>"
    using move_leader(1) [OF gps1 gl] a by (simp add: w2_def)
  have pb1: "position_of w2 1 = \<lparr>lat = 28.7040 + x, lon = 77.1024 + x, alt = 100\<rparr>"
    and pc1: "position_of w2 2 = \<lparr>lat = 28.7042 - y, lon = 77.1026 - y, alt = 100\<rparr>"
    using move_leader(2,3) [OF gps1 gl] b(2) c(2) by (simp_all add: w2_def)
  have "lat (position_of w2 1) \<noteq> lat (position_of w2 0)" "lat (position_of w2 2) \<noteq> lat (position_of w2 0)"
    using pa1 pb1 pc1 b(1) c(1) by simp_all
  then have apart: "\<forall>f\<in>set [1::nat, 2]. position_of w2 f \<noteq> position_of w2 0" by auto
  have fs: "set [1::nat, 2] \<subseteq> {..<length (drones w2)}" using l2 by simp
  obtain W where W: "send_position_update c w2 0 [1, 2] = Inr W"
    and all: "\<forall>q < length (drones w2).
           (q \<in> set [1, 2] \<and> role (drones w2 ! q) = ''follower''
              \<longrightarrow> follow_step (position_of w2 q) (position_of w2 0) = Inr (position_of W q))
         \<and> (q \<notin> set [1, 2] \<or> role (drones w2 ! q) \<noteq> ''follower''
              \<longrightarrow> position_of W q = position_of w2 q)"
    using leader_broadcast [OF _ inb _ roles(1) fs _ apart, of c] skel_map_eq(1) [OF sk2] st(3) l2
    by auto
  have a2: "position_of W 0 = \<lparr>lat = 28.70411, lon = 77.10251, alt = 100\<rparr>"
    using all [rule_format, of 0] l2 pa1 by simp
  have fb: "follow_step (position_of w2 1) (position_of w2 0) = Inr (position_of W 1)"
    using all [rule_format, of 1] l2 roles(2) by simp
  have fc: "follow_step (position_of w2 2) (position_of w2 0) = Inr (position_of W 2)"
    using all [rule_format, of 2] l2 roles(3) by simp
  have "500000 < \<bar>lat (position_of w2 0) - lat (position_of W 1)\<bar>"
  proof (rule follow_step_diag_far [OF _ _ _ _ fb])
    show "lat (position_of w2 0) - lat (position_of w2 1) = 0.00011 - x" using pa1 pb1 by simp
    show "lon (position_of w2 0) - lon (position_of w2 1) = 0.00011 - x" using pa1 pb1 by simp
    show "alt (position_of w2 0) = alt (position_of w2 1)" using pa1 pb1 by simp
    show "7 < \<bar>0.00011 - x\<bar>" using abs_gap [OF b(1), of "0.00011"] by simp
  qed
  moreover have "500000 < \<bar>lat (position_of w2 0) - lat (position_of W 2)\<bar>"
  proof (rule follow_step_diag_far [OF _ _ _ _ fc])
    show "lat (position_of w2 0) - lat (position_of w2 2) = y - 0.00009" using pa1 pc1 by simp
    show "lon (position_of w2 0) - lon (position_of w2 2) = y - 0.00009" using pa1 pc1 by simp
    show "alt (position_of w2 0) = alt (position_of w2 2)" using pa1 pc1 by simp
    show "7 < \<bar>y - 0.00009\<bar>" using abs_gap [OF c(1), of "0.00009"] by simp
  qed
  ultimately show ?thesis using W a2 pa1 by simp
qed

section \<open>Behaviour of the script\<close>

text \<open>
  C21: The script of lines 121--136 runs to the end for every digest and number rendering:
  neither broadcast raises. It does not do what the specification describes (followers
  converging to 3 m of the leader): the step of \<open>adjust_position\<close> is a distance in
  metres applied to coordinates in degrees, so after the first broadcast each follower is
  more than 7 degrees past the leader, and after the second more than 500000 degrees of
  latitude away from it, more than \<open>5.5 \<cdot> 10\<^sup>1\<^sup>0\<close> m by \<open>calculate_distance\<close>. The leader
  ends where \<open>update_position\<close> put it.
\<close>

theorem script_runs_and_diverges:
  "\<exists>W. main_script c = Inr W
     \<and> position_of W 0 = \<lparr>lat = 28.70411, lon = 77.10251, alt = 100\<rparr>
     \<and> 500000 < \<bar>lat (position_of W 0) - lat (position_of W 1)\<bar>
     \<and> 500000 < \<bar>lat (position_of W 0) - lat (position_of W 2)\<bar>
     \<and> 55000000000 < calculate_distance (position_of W 1) (position_of W 0)
     \<and> 55000000000 < calculate_distance (position_of W 2) (position_of W 0)"
proof -
  obtain W1 b b' where W1: "send_position_update c (snd script_drones) 0 [1, 2] = Inr W1"
    and sk: "map drone_skel (drones W1) = map drone_skel (drones (snd script_drones))"
    and gl: "length (gps_heap W1) = 3"
    and a: "position_of W1 0 = \<lparr>lat = 28.7041, lon = 77.1025, alt = 100\<rparr>"
    and b: "14 < b" "position_of W1 1 =
           \<lparr>lat = 28.7040 + (b - 3) / sqrt 2, lon = 77.1024 + (b - 3) / sqrt 2, alt = 100\<rparr>"
    and c: "14 < b'" "position_of W1 2 =
           \<lparr>lat = 28.7042 + (3 - b') / sqrt 2, lon = 77.1026 + (3 - b') / sqrt 2, alt = 100\<rparr>"
    using script_first_broadcast [of c] by blast
  have neg: "(3 - b') / sqrt 2 = - ((b' - 3) / sqrt 2)" by (simp only: minus_divide_left minus_diff_eq)
  have c2: "position_of W1 2 =
      \<lparr>lat = 28.7042 - (b' - 3) / sqrt 2, lon = 77.1026 - (b' - 3) / sqrt 2, alt = 100\<rparr>"
    using c(2) unfolding neg by simp
  obtain W where W: "send_position_update c (update_position W1 0 0.00001 0.00001 0) 0 [1, 2] = Inr W"
    and a2: "position_of W 0 = \<lparr>lat = 28.70411, lon = 77.10251, alt = 100\<rparr>"
    and f1: "500000 < \<bar>lat (position_of W 0) - lat (position_of W 1)\<bar>"
    and f2: "500000 < \<bar>lat (position_of W 0) - lat (position_of W 2)\<bar>"
    using script_second_broadcast [OF sk gl a step_gt [OF b(1)] b(2) step_gt [OF c(1)] c2, of c]
    by blast
  have "main_script c = Inr W" using W1 W by (simp add: main_script_unfold)
  moreover have "55000000000 < calculate_distance (position_of W q) (position_of W 0)"
    if "500000 < \<bar>lat (position_of W 0) - lat (position_of W q)\<bar>" for q
  proof -
    have "500000 * 111139 < \<bar>lat (position_of W 0) - lat (position_of W q)\<bar> * 111139"
      using that by simp
    also have "\<dots> \<le> calculate_distance (position_of W q) (position_of W 0)"
      by (rule calculate_distance_ge_lat)
    finally show ?thesis by simp
  qed
  ultimately show ?thesis using a2 f1 f2 by blast
qed

end
