(* ===== verification/Spec2Isabelle.thy ===== *)
theory Spec2Isabelle
  imports Script
begin

text \<open>
  \<^bold>\<open>Leader-follower drone swarm: a verification development of \<open>src/code.py\<close>.\<close>

  \<^bold>\<open>The program.\<close> One Python class, \<open>Drone\<close>, plays both sides of a position
  synchronisation protocol. A leader (\<open>role == 'leader'\<close>) builds a message whose payload is
  its \<open>gps_coordinates\<close> dict and its altitude, with an MD5 checksum over the key-sorted JSON
  text of the payload, and hands it to every follower in a list
  (\<open>send_position_update\<close>, \<open>create_message\<close>, \<open>calculate_checksum\<close>). A follower
  recomputes the checksum (\<open>receive_message\<close>, \<open>verify_checksum\<close>), logs the message,
  and on a \<open>"Position Update"\<close> (\<open>process_message\<close>) moves along the raw
  (degree, degree, metre) offset to the leader by the difference between its equirectangular
  distance in metres and 3.0 (\<open>adjust_position\<close>, \<open>calculate_distance\<close>). The leader
  moves with \<open>update_position\<close>. Lines 121--136 are a script that builds three drones and
  broadcasts twice.

  \<^bold>\<open>Library layout.\<close>
  \<^item> \<open>Prelude\<close>: heap references, the exception type \<open>exc\<close> (Python's
    \<open>ZeroDivisionError\<close>) and the \<open>outcome\<close> of a handler (\<open>Inl\<close> the exception with the
    state at the raise, \<open>Inr\<close> the new state), the collection \<open>frame_simps\<close> (what an operation leaves
    unchanged), list and square-root lemmas.
  \<^item> \<open>Json\<close>: \<open>json.dumps(\<dots>, sort_keys=True)\<close> on objects and numbers (\<open>dumps\<close>),
    with members in key order and the default separators.
  \<^item> \<open>Geometry\<close>: \<open>calculate_distance\<close> (lines 81--87), \<open>correction\<close> (lines 60--77)
    and \<open>follow_step\<close> (the guard of line 56 with the correction) as pure functions of
    positions; when the step raises, that it moves along the line to the leader, that a
    vertical offset is corrected exactly, and bounds for offsets along the diagonal
    (distance between 14 and 16 m at one unit of the fourth decimal; a step that lands more
    than 500000 degrees away once the offset exceeds 7 degrees).
  \<^item> \<open>Drone\<close>: the records of the dicts and objects (\<open>vec3\<close>, \<open>gps\<close>, \<open>header\<close>,
    \<open>position_payload\<close>, \<open>message\<close>, \<open>drone\<close>), the \<open>world\<close>: a heap of drones, a heap of
    \<open>gps_coordinates\<close> dicts and the console; \<open>drone_init\<close> (\<open>__init__\<close>, lines 6--14),
    \<open>update_position\<close> (lines 113--118), the well-formedness invariant \<open>wf_world\<close>
    (every reference allocated, no dict shared by two drones).
  \<^item> \<open>Message\<close>: the \<open>codec\<close> (number rendering and digest, the two library functions the
    checksum calls), \<open>payload_json\<close>, \<open>calculate_checksum\<close>, \<open>create_message\<close>,
    \<open>verify_checksum\<close> (lines 22--25, 89--111); the hashed text and corruption detection.
  \<^item> \<open>Protocol\<close>: \<open>adjust_position\<close>, \<open>process_message\<close>, \<open>receive_message\<close>, the
    loop \<open>deliver\<close> and \<open>send_position_update\<close> (lines 16--79); frames of the handlers
    (\<open>frame_on\<close>), the error paths, the invariant of the broadcast loop, the order of
    deliveries, when a broadcast completes, and where it leaves each follower.
  \<^item> \<open>Script\<close>: the module-level script of lines 121--136: \<open>script_drones\<close> (the three
    constructor calls) and \<open>main_script\<close> (broadcast, leader move, broadcast), with its
    complete run.
  \<^item> this theory: the properties of a whole broadcast, the aliasing of the payload, and a
    concrete two-drone scenario on which every theorem with hypotheses is applied.

  \<^bold>\<open>Correspondence.\<close> A Python object shared by reference is a cell of a heap list and
  the reference its index: drone objects in \<open>drones\<close>, the \<open>gps_coordinates\<close> dicts in
  \<open>gps_heap\<close>. The payload of a message stores the index of the leader's dict, as line 23
  stores the dict itself, and its altitude by value. Every method takes the world and returns
  the new one (or an \<open>outcome\<close>); every \<open>print\<close> appends an \<open>event\<close> to the console.
  Python floats are idealised as reals (\<open>math.sqrt\<close>, \<open>math.cos\<close> and
  \<open>math.radians\<close> are \<open>sqrt\<close>, \<open>cos\<close> and \<open>x * pi / 180\<close>); rounding is not modelled, and
  Python's distinction between \<open>int\<close> and \<open>float\<close> values is not kept.
  \<open>hashlib.md5(\<dots>).hexdigest()\<close> and the number rendering of \<open>json.dumps\<close> are library
  code and are parameters (\<open>codec\<close>): theorems that need them to tell values apart say so
  as hypotheses (an injective digest, renderings without commas).

  \<^bold>\<open>What is proved.\<close> For a leader in a well-formed heap, a broadcast delivers exactly the
  message built at its start to every listed follower, once per occurrence in the list
  (C1), never moves the leader (C2), prints one \<open>Sending\<close> line per follower in list order
  (C17), stops at the first follower that sits on the leader's position when it raises (C18),
  never raises when the followers are distinct and none starts there (C19), and moves every
  listed follower by exactly one \<open>follow_step\<close> (C20); a non-leader's broadcast does nothing
  but print (C3). A message with a wrong checksum is dropped (C4); a payload that denotes
  another position than the one hashed is rejected (C5). \<open>adjust_position\<close> raises exactly
  when follower and leader coincide (C6), takes the early return at exactly 3.0 m (C7), and
  otherwise moves along the line to the leader (C8), correcting a vertical offset exactly
  (C9); non-followers and other message types only log (C10). Because the payload aliases
  the leader's dict, a logged message stops verifying once the leader moves (C11).
  \<open>update_position\<close> moves exactly one drone (C12); the constructor, \<open>receive_message\<close> and
  the broadcast keep the heap well-formed (C13, C15, C16). On the positions of the script
  one correction overshoots by degrees, against the specification's scenario (C14), and the
  whole script runs to the end with both followers more than 500000 degrees from the leader
  (C21). The bounds on \<open>cos\<close> come from \<open>cos 30\<degree>\<close> (the script's latitudes lie
  below 30 degrees) and that on \<open>sqrt 2\<close> from \<open>2 < 1.5\<^sup>2\<close>.

  \<^bold>\<open>Not modelled.\<close> Console formatting (the events keep the printed data, not the text),
  MD5 itself and the float \<open>repr\<close> (parameters), floating-point rounding and underflow,
  default arguments of \<open>__init__\<close> (every call passes them explicitly). No loop of the
  program can run forever (\<open>deliver\<close> recurses on the follower list), so no fuel is needed.
\<close>

section \<open>A concrete scenario\<close>

text \<open>
  A two-drone world built with the constructor, as the script at lines 121--127 builds its
  three drones: leader \<open>A\<close> five metres straight above follower \<open>B\<close>, both at latitude
  and longitude 0 (so that the cosine and the square roots evaluate in the kernel). The codec
  renders the few numbers of the scenario distinctly and uses the identity as digest.
\<close>

definition demo_codec :: codec where
  "demo_codec = \<lparr>num_repr = (\<lambda>x. if x = 0 then ''0'' else if x = 1 then ''1'' else ''2''),
                  digest = (\<lambda>s. s)\<rparr>"

definition demo_world :: world where
  "demo_world = snd (drone_init (snd (drone_init initial_world ''A'' ''leader'' 1 (0, 0, 0) (0, 0) 5))
                       ''B'' ''follower'' 2 (0, 0, 0) (0, 0) 0)"

definition demo_payload :: position_payload where
  "demo_payload = \<lparr>payload_gps = 0, payload_altitude = 5\<rparr>"

text \<open>
  The same two drones with the follower already at the leader's position, the case in
  which \<open>adjust_position\<close> divides by zero.
\<close>

definition demo_stacked :: world where
  "demo_stacked = snd (drone_init (snd (drone_init initial_world ''A'' ''leader'' 1 (0, 0, 0) (0, 0) 5))
                       ''B'' ''follower'' 2 (0, 0, 0) (0, 0) 5)"

lemma sqrt_9: "sqrt 9 = 3"
  by (rule real_sqrt_unique) simp_all

lemma sqrt_25: "sqrt 25 = 5"
  by (rule real_sqrt_unique) simp_all

lemmas demo_eval = demo_world_def drone_init_def initial_world_def demo_codec_def demo_payload_def
  send_position_update_def create_message_def calculate_checksum_def receive_message_def
  verify_checksum_def process_message_def adjust_position_def position_of_def payload_pos_def
  calculate_distance_def correction_def radians_def desired_distance_def payload_json_def
  join_with_def json_key_def update_position_def Let_def sqrt_9 sqrt_25

lemma demo_wf: "wf_world demo_world"
  by (simp add: demo_eval wf_world_def msg_ok_def)

lemma demo_shape:
  "length (drones demo_world) = 2" "role (drones demo_world ! 0) = ''leader''"
  "role (drones demo_world ! Suc 0) = ''follower''" "drone_id (drones demo_world ! 0) = ''A''"
  "drone_id (drones demo_world ! Suc 0) = ''B''" "gps_coordinates (drones demo_world ! 0) = 0"
  "altitude (drones demo_world ! 0) = 5"
  by (simp_all add: demo_eval)

section \<open>Properties of the broadcast\<close>

text \<open>
  C1: Round-trip integrity of a broadcast. When a leader in a well-formed heap broadcasts and
  no follower raises, every drone's log grows by exactly the message the leader built, once
  per occurrence of the drone in the follower list: the message verifies at every receiver,
  because no follower writes the leader's dict that the payload refers to.
\<close>

theorem broadcast_delivers:
  assumes "wf_world w" and "r < length (drones w)" and "role (drones w ! r) = ''leader''"
    and "set fs \<subseteq> {..<length (drones w)}" and "send_position_update c w r fs = Inr W"
  shows "received_messages (drones W ! q) = received_messages (drones w ! q) @
           replicate (count_list fs q)
             (create_message c w r ''Position Update''
                \<lparr>payload_gps = gps_coordinates (drones w ! r), payload_altitude = altitude (drones w ! r)\<rparr>
                (map (\<lambda>f. drone_id (drones w ! f)) fs))"
proof -
  let ?p = "\<lparr>payload_gps = gps_coordinates (drones w ! r), payload_altitude = altitude (drones w ! r)\<rparr>"
  let ?m = "create_message c w r ''Position Update'' ?p (map (\<lambda>f. drone_id (drones w ! f)) fs)"
  have d: "distinct (map gps_coordinates (drones w))" using assms(1) by (simp add: wf_world_def)
  have "verify_checksum c w ?m" by (rule verify_create_message)
  moreover have "payload_gps (payload ?m) = gps_coordinates (drones w ! r)"
    by (simp add: create_message_def)
  ultimately have "\<forall>W. deliver c r ?m fs w = Inr W \<longrightarrow>
         (\<forall>q. received_messages (drones W ! q) =
               received_messages (drones w ! q) @ replicate (count_list fs q) ?m)"
    using deliver_keeps_leader [OF d assms(2,3,4)] by blast
  moreover have "deliver c r ?m fs w = Inr W"
    using assms(3,5) by (simp add: send_position_update_def Let_def)
  ultimately show ?thesis by blast
qed

text \<open>
  C2: The leader's own position is never changed by its broadcast, whatever the followers
  do and even when one of them raises: the followers write only the dicts they own.
\<close>

theorem broadcast_leader_unmoved:
  assumes "wf_world w" and "r < length (drones w)" and "set fs \<subseteq> {..<length (drones w)}"
  shows "position_of (final_state (send_position_update c w r fs)) r = position_of w r"
proof -
  let ?W = "final_state (send_position_update c w r fs)"
  have fr: "map drone_skel (drones ?W) = map drone_skel (drones w)
    \<and> gps_heap ?W ! gps_coordinates (drones w ! r) = gps_heap w ! gps_coordinates (drones w ! r)
    \<and> altitude (drones ?W ! r) = altitude (drones w ! r)"
    using assms by (rule send_position_update_frame)
  then have "gps_coordinates (drones ?W ! r) = gps_coordinates (drones w ! r)"
    using skel_eq_nth assms(2) by blast
  with fr show ?thesis by (simp add: position_of_def Let_def)
qed

text \<open>
  C3: Role gating. A drone whose role is not \<open>"leader"\<close> that calls the broadcast delivers
  nothing: no drone and no dict changes, and the only effect is the "is not a leader" line
  (lines 18--20).
\<close>

theorem broadcast_role_gated:
  assumes "role (drones w ! r) \<noteq> ''leader''"
  shows "\<exists>W. send_position_update c w r fs = Inr W \<and> drones W = drones w \<and> gps_heap W = gps_heap w
           \<and> console W = console w @ [NotLeader (drone_id (drones w ! r))]"
  using assms by (simp add: send_position_update_def)

text \<open>
  C11: The payload holds the leader's \<open>gps_coordinates\<close> dict by reference (line 23). Once
  the leader moves with \<open>update_position\<close>, a message it created earlier, and the copy of
  it in every follower's log, denotes the new latitude with the old altitude and no longer
  passes \<open>verify_checksum\<close>.
\<close>

theorem stale_log_after_leader_moves:
  assumes "wf_world w" and "r < length (drones w)" and "inj (digest c)"
    and "\<forall>x. CHR '','' \<notin> set (num_repr c x)"
    and "num_repr c (lat (position_of w r) + dlat) \<noteq> num_repr c (lat (position_of w r))"
  shows "\<not> verify_checksum c (update_position w r dlat dlon dalt)
           (create_message c w r mt
              \<lparr>payload_gps = gps_coordinates (drones w ! r), payload_altitude = altitude (drones w ! r)\<rparr> ids)"
proof
  let ?p = "\<lparr>payload_gps = gps_coordinates (drones w ! r), payload_altitude = altitude (drones w ! r)\<rparr>"
  let ?w' = "update_position w r dlat dlon dalt"
  let ?g = "gps_coordinates (drones w ! r)"
  have inb: "?g < length (gps_heap w)"
    using assms(1,2) by (auto simp: wf_world_def list_all_length)
  assume "verify_checksum c ?w' (create_message c w r mt ?p ids)"
  then have "digest c (dumps (num_repr c) (payload_json ?w' ?p)) = digest c (dumps (num_repr c) (payload_json w ?p))"
    by (simp add: verify_checksum_def create_message_def calculate_checksum_def)
  then have "dumps (num_repr c) (payload_json ?w' ?p) = dumps (num_repr c) (payload_json w ?p)"
    using assms(3) by (simp add: inj_eq)
  then have "num_repr c (latitude (gps_heap ?w' ! ?g)) = num_repr c (latitude (gps_heap w ! ?g))"
    using dumps_payload_json_inj [OF assms(4)] by fastforce
  then show False
    using assms(5) inb by (simp add: update_position_def position_of_def Let_def)
qed

text \<open>
  C16: A broadcast keeps the heap well-formed, also when a follower raises: the message it
  hands out refers to the leader's own dict, which is allocated.
\<close>

theorem wf_send_position_update:
  assumes "wf_world w" and "r < length (drones w)" and "set fs \<subseteq> {..<length (drones w)}"
  shows "wf_world (final_state (send_position_update c w r fs))"
proof (cases "role (drones w ! r) = ''leader''")
  case False
  with assms(1) show ?thesis by (simp add: send_position_update_def)
next
  case True
  let ?p = "\<lparr>payload_gps = gps_coordinates (drones w ! r), payload_altitude = altitude (drones w ! r)\<rparr>"
  let ?m = "create_message c w r ''Position Update'' ?p (map (\<lambda>f. drone_id (drones w ! f)) fs)"
  have ok: "msg_ok w ?m"
    using assms(1,2) by (simp add: wf_world_def list_all_length msg_ok_def create_message_def)
  have "map drone_skel (drones (final_state (deliver c r ?m fs w))) = map drone_skel (drones w)
    \<and> length (gps_heap (final_state (deliver c r ?m fs w))) = length (gps_heap w)
    \<and> (\<forall>q. set (received_messages (drones (final_state (deliver c r ?m fs w)) ! q))
            \<subseteq> set (received_messages (drones w ! q)) \<union> {?m})"
    using assms(3) by (rule deliver_logs)
  then have "wf_world (final_state (deliver c r ?m fs w))"
    using wf_world_transfer [OF assms(1) _ _ _ ok] by blast
  with True show ?thesis by (simp add: send_position_update_def Let_def)
qed

text \<open>
  C17: Delivery order. A leader's broadcast that no follower aborts prints one
  \<open>Sending\<close> line per entry of the follower list, in list order and with the
  recipient's id (lines 27--28); no handler prints one.
\<close>

theorem broadcast_sends_in_order:
  assumes "r < length (drones w)" and "role (drones w ! r) = ''leader''"
    and "set fs \<subseteq> {..<length (drones w)}" and "send_position_update c w r fs = Inr W"
  shows "sending_log (console W) = sending_log (console w)
           @ map (\<lambda>f. (drone_id (drones w ! r), drone_id (drones w ! f))) fs"
proof -
  let ?m = "create_message c w r ''Position Update''
              \<lparr>payload_gps = gps_coordinates (drones w ! r), payload_altitude = altitude (drones w ! r)\<rparr>
              (map (\<lambda>f. drone_id (drones w ! f)) fs)"
  have "deliver c r ?m fs w = Inr W"
    using assms(2,4) by (simp add: send_position_update_def Let_def)
  then show ?thesis using deliver_trace [OF assms(3,1)] by blast
qed

text \<open>
  C18: A raise ends the broadcast. If the broadcast raises, it does so at some entry \<open>k\<close>
  of the follower list: exactly the first \<open>k + 1\<close> followers were contacted and no later one,
  and the follower that raised sits exactly at the leader's position.
\<close>

theorem broadcast_raise_stops:
  assumes "wf_world w" and "r < length (drones w)"
    and "set fs \<subseteq> {..<length (drones w)}" and "send_position_update c w r fs = Inl (e, W)"
  shows "\<exists>k < length fs.
           sending_log (console W) = sending_log (console w)
             @ map (\<lambda>f. (drone_id (drones w ! r), drone_id (drones w ! f))) (take (Suc k) fs)
           \<and> position_of W (fs ! k) = position_of w r"
proof -
  let ?p = "\<lparr>payload_gps = gps_coordinates (drones w ! r), payload_altitude = altitude (drones w ! r)\<rparr>"
  let ?m = "create_message c w r ''Position Update'' ?p (map (\<lambda>f. drone_id (drones w ! f)) fs)"
  have ld: "role (drones w ! r) = ''leader''"
    using assms(4) by (auto simp: send_position_update_def Let_def split: if_splits)
  have d: "deliver c r ?m fs w = Inl (e, W)"
    using ld assms(4) by (simp add: send_position_update_def Let_def)
  have vc: "verify_checksum c w ?m" by (rule verify_create_message)
  have dist: "distinct (map gps_coordinates (drones w))" using assms(1) by (simp add: wf_world_def)
  have "gps_heap W ! gps_coordinates (drones w ! r) = gps_heap w ! gps_coordinates (drones w ! r)"
    using deliver_keeps_leader [OF dist assms(2) ld assms(3) vc] d
    by (simp add: create_message_def)
  then have pp: "payload_pos W (payload ?m) = position_of w r"
    by (simp add: payload_pos_def position_of_def create_message_def Let_def)
  obtain k where "k < length fs"
    and "sending_log (console W) = sending_log (console w)
             @ map (\<lambda>f. (drone_id (drones w ! r), drone_id (drones w ! f))) (take (Suc k) fs)"
    and "position_of W (fs ! k) = payload_pos W (payload ?m)"
    using deliver_trace [OF assms(3,2)] d by blast
  with pp show ?thesis by auto
qed

text \<open>
  C19: A broadcast to a list of distinct followers none of which is at the leader's
  position runs to the end: no \<open>ZeroDivisionError\<close> escapes from it.
\<close>

theorem broadcast_completes:
  assumes "wf_world w" and "r < length (drones w)" and "set fs \<subseteq> {..<length (drones w)}"
    and "distinct fs" and "\<forall>f\<in>set fs. position_of w f \<noteq> position_of w r"
  shows "\<exists>W. send_position_update c w r fs = Inr W"
proof (cases "role (drones w ! r) = ''leader''")
  case False
  then show ?thesis by (simp add: send_position_update_def)
next
  case True
  let ?p = "\<lparr>payload_gps = gps_coordinates (drones w ! r), payload_altitude = altitude (drones w ! r)\<rparr>"
  let ?m = "create_message c w r ''Position Update'' ?p (map (\<lambda>f. drone_id (drones w ! f)) fs)"
  have dist: "distinct (map gps_coordinates (drones w))" using assms(1) by (simp add: wf_world_def)
  have "payload_pos w (payload ?m) = position_of w r"
    by (simp add: payload_pos_def position_of_def create_message_def Let_def)
  then have "\<exists>W. deliver c r ?m fs w = Inr W"
    using deliver_no_raise [OF dist assms(2) True _ assms(3,4)] assms(5)
    by (simp add: create_message_def)
  with True show ?thesis by (simp add: send_position_update_def Let_def)
qed

text \<open>
  C20: The effect of a completed broadcast on positions. When a leader in a well-formed heap
  broadcasts to distinct drones and nothing raises, every listed follower has taken exactly
  one \<open>follow_step\<close> (lines 51--77) from its starting position towards the leader's, and
  every other drone, the leader included, is where it was.
\<close>

theorem broadcast_moves_followers:
  assumes "wf_world w" and "r < length (drones w)" and "role (drones w ! r) = ''leader''"
    and "set fs \<subseteq> {..<length (drones w)}" and "distinct fs"
    and "send_position_update c w r fs = Inr W"
  shows "\<forall>q < length (drones w).
           (q \<in> set fs \<and> role (drones w ! q) = ''follower''
              \<longrightarrow> follow_step (position_of w q) (position_of w r) = Inr (position_of W q))
         \<and> (q \<notin> set fs \<or> role (drones w ! q) \<noteq> ''follower'' \<longrightarrow> position_of W q = position_of w q)"
proof -
  let ?p = "\<lparr>payload_gps = gps_coordinates (drones w ! r), payload_altitude = altitude (drones w ! r)\<rparr>"
  let ?m = "create_message c w r ''Position Update'' ?p (map (\<lambda>f. drone_id (drones w ! f)) fs)"
  have dist: "distinct (map gps_coordinates (drones w))"
    and inb: "\<forall>q < length (drones w). gps_coordinates (drones w ! q) < length (gps_heap w)"
    using assms(1) by (auto simp: wf_world_def list_all_length)
  have d: "deliver c r ?m fs w = Inr W"
    using assms(3,6) by (simp add: send_position_update_def Let_def)
  have pp: "payload_pos w (payload ?m) = position_of w r"
    by (simp add: payload_pos_def position_of_def create_message_def Let_def)
  have "payload_gps (payload ?m) = gps_coordinates (drones w ! r)"
    and "message_type (header ?m) = ''Position Update''"
    by (simp_all add: create_message_def)
  from deliver_positions [OF dist inb assms(2,3) this(1) assms(4,5) verify_create_message this(2) d]
  show ?thesis unfolding pp .
qed

section \<open>Witnesses\<close>

text \<open>
  Each theorem with hypotheses applied to the scenario above, with the hypotheses
  discharged by evaluation.
\<close>

theorem broadcast_delivers_witness:
  "\<exists>W. send_position_update demo_codec demo_world 0 [1] = Inr W
     \<and> received_messages (drones W ! 1) = received_messages (drones demo_world ! 1) @
         replicate (count_list [1] 1)
           (create_message demo_codec demo_world 0 ''Position Update''
              \<lparr>payload_gps = gps_coordinates (drones demo_world ! 0),
               payload_altitude = altitude (drones demo_world ! 0)\<rparr>
              (map (\<lambda>f. drone_id (drones demo_world ! f)) [1]))"
proof -
  have "\<exists>W. send_position_update demo_codec demo_world 0 [1] = Inr W"
    by (simp add: demo_eval)
  then obtain W where W: "send_position_update demo_codec demo_world 0 [1] = Inr W" by blast
  have fs: "set [1::nat] \<subseteq> {..<length (drones demo_world)}" by (simp add: demo_shape)
  show ?thesis
    using W broadcast_delivers [OF demo_wf _ _ fs W, of 1] by (simp add: demo_shape)
qed

theorem broadcast_leader_unmoved_witness:
  "position_of (final_state (send_position_update demo_codec demo_world 0 [1])) 0 = position_of demo_world 0"
proof -
  have fs: "set [1::nat] \<subseteq> {..<length (drones demo_world)}" by (simp add: demo_shape)
  show ?thesis by (rule broadcast_leader_unmoved [OF demo_wf _ fs]) (simp add: demo_shape)
qed

theorem broadcast_role_gated_witness:
  "\<exists>W. send_position_update demo_codec demo_world 1 [0] = Inr W \<and> drones W = drones demo_world
     \<and> gps_heap W = gps_heap demo_world \<and> console W = console demo_world @ [NotLeader ''B'']"
  using broadcast_role_gated [of demo_world 1 demo_codec "[0]"] by (simp add: demo_shape)

theorem stale_log_after_leader_moves_witness:
  "\<not> verify_checksum demo_codec (update_position demo_world 0 1 0 0)
      (create_message demo_codec demo_world 0 ''Position Update'' demo_payload [''B''])"
proof -
  have inj: "inj (digest demo_codec)" by (simp add: demo_codec_def)
  have cf: "\<forall>x. CHR '','' \<notin> set (num_repr demo_codec x)" by (simp add: demo_codec_def)
  have nr: "num_repr demo_codec (lat (position_of demo_world 0) + 1) \<noteq> num_repr demo_codec (lat (position_of demo_world 0))"
    by (simp add: demo_eval)
  have p: "demo_payload = \<lparr>payload_gps = gps_coordinates (drones demo_world ! 0),
                           payload_altitude = altitude (drones demo_world ! 0)\<rparr>"
    by (simp add: demo_payload_def demo_shape)
  show ?thesis
    unfolding p by (rule stale_log_after_leader_moves [OF demo_wf _ inj cf nr]) (simp add: demo_shape)
qed

theorem receive_corrupted_witness:
  "\<exists>W. receive_message demo_codec demo_world 1
        ((create_message demo_codec demo_world 0 ''Position Update'' demo_payload [''B''])\<lparr>checksum := ''0''\<rparr>) = Inr W
     \<and> drones W = drones demo_world \<and> gps_heap W = gps_heap demo_world
     \<and> console W = console demo_world @ [Corrupted ''B'']"
proof -
  have "\<not> verify_checksum demo_codec demo_world
          ((create_message demo_codec demo_world 0 ''Position Update'' demo_payload [''B''])\<lparr>checksum := ''0''\<rparr>)"
    by (simp add: demo_eval)
  from Protocol.receive_corrupted [OF this, of 1] show ?thesis by (simp add: demo_shape)
qed

theorem tampered_payload_rejected_witness:
  "\<not> verify_checksum demo_codec demo_world
      ((create_message demo_codec demo_world 0 ''Position Update'' demo_payload [''B''])
         \<lparr>payload := demo_payload\<lparr>payload_altitude := 1\<rparr>\<rparr>)"
proof (rule Message.tampered_payload_rejected)
  show "inj (digest demo_codec)" by (simp add: demo_codec_def)
  show "\<forall>x. CHR '','' \<notin> set (num_repr demo_codec x)" by (simp add: demo_codec_def)
  show "inj_on (num_repr demo_codec)
     {lat (payload_pos demo_world demo_payload), lon (payload_pos demo_world demo_payload),
      alt (payload_pos demo_world demo_payload),
      lat (payload_pos demo_world (demo_payload\<lparr>payload_altitude := 1\<rparr>)),
      lon (payload_pos demo_world (demo_payload\<lparr>payload_altitude := 1\<rparr>)),
      alt (payload_pos demo_world (demo_payload\<lparr>payload_altitude := 1\<rparr>))}"
    by (auto simp: demo_eval)
  show "payload_pos demo_world (demo_payload\<lparr>payload_altitude := 1\<rparr>) \<noteq> payload_pos demo_world demo_payload"
    by (simp add: demo_eval)
qed

theorem adjust_position_raises_iff_witness:
  "\<exists>e w'. adjust_position demo_world 1 \<lparr>payload_gps = 1, payload_altitude = 0\<rparr> = Inl (e, w')"
proof -
  have "position_of demo_world 1 = payload_pos demo_world \<lparr>payload_gps = 1, payload_altitude = 0\<rparr>"
    by (simp add: demo_eval)
  then show ?thesis using Protocol.adjust_position_raises_iff by blast
qed

theorem adjust_position_at_desired_witness:
  "adjust_position demo_world 1 \<lparr>payload_gps = 0, payload_altitude = 3\<rparr> =
     Inr (emit (emit demo_world (CurrentDistance ''B'' 3)) (AtDesired ''B''))"
proof -
  have "calculate_distance (position_of demo_world 1)
          (payload_pos demo_world \<lparr>payload_gps = 0, payload_altitude = 3\<rparr>) = desired_distance"
    by (simp add: demo_eval)
  from Protocol.adjust_position_at_desired [OF this] show ?thesis
    by (simp add: demo_shape desired_distance_def)
qed

theorem correction_along_line_witness:
  "correction \<lparr>lat = 0, lon = 0, alt = 0\<rparr> \<lparr>lat = 0, lon = 0, alt = 5\<rparr> 5 = Inr \<lparr>lat = 0, lon = 0, alt = 2\<rparr>
   \<and> alt \<lparr>lat = 0, lon = 0, alt = 5\<rparr> - alt \<lparr>lat = 0, lon = 0, alt = 2 :: real\<rparr>
       = (1 - (5 - desired_distance) / 5) * (alt \<lparr>lat = 0, lon = 0, alt = 5\<rparr> - alt \<lparr>lat = 0, lon = 0, alt = 0 :: real\<rparr>)"
proof -
  have c: "correction \<lparr>lat = 0, lon = 0, alt = 0\<rparr> \<lparr>lat = 0, lon = 0, alt = 5\<rparr> 5 = Inr \<lparr>lat = 0, lon = 0, alt = 2\<rparr>"
    by (simp add: demo_eval)
  have n: "norm3 (0 - 0) (0 - 0) (5 - 0) = (5::real)" by (simp add: sqrt_25)
  show ?thesis using c Geometry.correction_along_line [OF c] n by (simp add: desired_distance_def)
qed

theorem correction_vertical_exact_witness:
  "\<exists>p. correction \<lparr>lat = 0, lon = 0, alt = 0\<rparr> \<lparr>lat = 0, lon = 0, alt = 5\<rparr>
          (calculate_distance \<lparr>lat = 0, lon = 0, alt = 0\<rparr> \<lparr>lat = 0, lon = 0, alt = 5\<rparr>) = Inr p
     \<and> calculate_distance p \<lparr>lat = 0, lon = 0, alt = 5\<rparr> = desired_distance"
  by (rule Geometry.correction_vertical_exact) simp_all

theorem receive_no_adjust_witness:
  "\<exists>W. receive_message demo_codec demo_world 0
        (create_message demo_codec demo_world 0 ''Position Update'' demo_payload [''B'']) = Inr W
     \<and> gps_heap W = gps_heap demo_world
     \<and> drones W = (drones demo_world)[0 := (drones demo_world ! 0)\<lparr>received_messages :=
          received_messages (drones demo_world ! 0)
            @ [create_message demo_codec demo_world 0 ''Position Update'' demo_payload [''B'']]\<rparr>]"
proof (rule Protocol.receive_no_adjust)
  show "verify_checksum demo_codec demo_world
          (create_message demo_codec demo_world 0 ''Position Update'' demo_payload [''B''])"
    by (simp add: demo_eval)
  show "0 < length (drones demo_world)" by (simp add: demo_shape)
  show "message_type (header (create_message demo_codec demo_world 0 ''Position Update'' demo_payload [''B'']))
          \<noteq> ''Position Update'' \<or> role (drones demo_world ! 0) \<noteq> ''follower''"
    by (simp add: demo_shape)
qed

theorem update_position_moves_witness:
  "position_of (update_position demo_world 0 1 0 0) 0 = \<lparr>lat = 1, lon = 0, alt = 5\<rparr>
   \<and> position_of (update_position demo_world 0 1 0 0) 1 = position_of demo_world 1"
proof -
  have "position_of demo_world 0 = \<lparr>lat = 0, lon = 0, alt = 5\<rparr>" by (simp add: demo_eval)
  then show ?thesis
    using Drone.update_position_moves [OF demo_wf, of 0 1 0 0] by (simp add: demo_shape)
qed

theorem wf_drone_init_witness:
  "wf_world (snd (drone_init initial_world ''A'' ''leader'' 1 (0, 0, 0) (0, 0) 5))"
proof (rule Drone.wf_drone_init)
  show "wf_world initial_world" by (simp add: initial_world_def wf_world_def)
qed

theorem wf_receive_message_witness:
  "wf_world (final_state (receive_message demo_codec demo_world 1
     (create_message demo_codec demo_world 0 ''Position Update'' demo_payload [''B''])))"
proof (rule Protocol.wf_receive_message [OF demo_wf])
  show "msg_ok demo_world (create_message demo_codec demo_world 0 ''Position Update'' demo_payload [''B''])"
    by (simp add: demo_eval msg_ok_def)
  show "1 < length (drones demo_world)" by (simp add: demo_shape)
qed

theorem wf_send_position_update_witness:
  "wf_world (final_state (send_position_update demo_codec demo_world 0 [1, 0]))"
proof (rule wf_send_position_update [OF demo_wf])
  show "0 < length (drones demo_world)" by (simp add: demo_shape)
  show "set [1::nat, 0] \<subseteq> {..<length (drones demo_world)}" by (simp add: demo_shape)
qed

theorem broadcast_sends_in_order_witness:
  "\<exists>W. send_position_update demo_codec demo_world 0 [1] = Inr W
     \<and> sending_log (console W) = [(''A'', ''B'')]"
proof -
  have "\<exists>W. send_position_update demo_codec demo_world 0 [1] = Inr W"
    by (simp add: demo_eval)
  then obtain W where W: "send_position_update demo_codec demo_world 0 [1] = Inr W" by blast
  have fs: "set [1::nat] \<subseteq> {..<length (drones demo_world)}" by (simp add: demo_shape)
  have c0: "sending_log (console demo_world) = []" by (simp add: demo_eval)
  show ?thesis
    using W broadcast_sends_in_order [OF _ _ fs W] c0 by (simp add: demo_shape)
qed

theorem broadcast_raise_stops_witness:
  "\<exists>e W. send_position_update demo_codec demo_stacked 0 [1, 1] = Inl (e, W)
     \<and> (\<exists>k < 2. sending_log (console W) = map (\<lambda>f. (''A'', ''B'')) (take (Suc k) [1::nat, 1])
                \<and> position_of W ([1, 1] ! k) = \<lparr>lat = 0, lon = 0, alt = 5\<rparr>)"
proof -
  have "\<exists>e W. send_position_update demo_codec demo_stacked 0 [1, 1] = Inl (e, W)"
    by (simp add: demo_eval demo_stacked_def)
  then obtain e W where W: "send_position_update demo_codec demo_stacked 0 [1, 1] = Inl (e, W)" by blast
  have wf: "wf_world demo_stacked" by (simp add: demo_eval demo_stacked_def wf_world_def msg_ok_def)
  have fs: "set [1::nat, 1] \<subseteq> {..<length (drones demo_stacked)}" by (simp add: demo_eval demo_stacked_def)
  have r: "0 < length (drones demo_stacked)" by (simp add: demo_eval demo_stacked_def)
  have facts: "sending_log (console demo_stacked) = []" "drone_id (drones demo_stacked ! 0) = ''A''"
    "drone_id (drones demo_stacked ! Suc 0) = ''B''" "position_of demo_stacked 0 = \<lparr>lat = 0, lon = 0, alt = 5\<rparr>"
    by (simp_all add: demo_eval demo_stacked_def)
  obtain k where k: "k < length [1::nat, 1]"
    and t: "sending_log (console W) = sending_log (console demo_stacked)
        @ map (\<lambda>f. (drone_id (drones demo_stacked ! 0), drone_id (drones demo_stacked ! f))) (take (Suc k) [1, 1])"
    and p: "position_of W ([1, 1] ! k) = position_of demo_stacked 0"
    using broadcast_raise_stops [OF wf r fs W] by blast
  have sl: "sending_log (console W) = map (\<lambda>f. (''A'', ''B'')) (take (Suc k) [1::nat, 1])"
    using k t facts by (cases k) auto
  have k2: "k < 2" using k by simp
  have p2: "position_of W ([1, 1] ! k) = \<lparr>lat = 0, lon = 0, alt = 5\<rparr>" using p facts by simp
  show ?thesis using W k2 sl p2 by blast
qed

theorem broadcast_completes_witness:
  "\<exists>W. send_position_update demo_codec demo_world 0 [1] = Inr W"
proof -
  have fs: "set [1::nat] \<subseteq> {..<length (drones demo_world)}" by (simp add: demo_shape)
  have "\<forall>f\<in>set [1::nat]. position_of demo_world f \<noteq> position_of demo_world 0"
    by (simp add: demo_eval)
  then show ?thesis
    using broadcast_completes [OF demo_wf _ fs] by (simp add: demo_shape)
qed

theorem broadcast_moves_followers_witness:
  "\<exists>W. send_position_update demo_codec demo_world 0 [1] = Inr W
     \<and> position_of W 1 = \<lparr>lat = 0, lon = 0, alt = 2\<rparr>"
proof -
  have "\<exists>W. send_position_update demo_codec demo_world 0 [1] = Inr W"
    by (simp add: demo_eval)
  then obtain W where W: "send_position_update demo_codec demo_world 0 [1] = Inr W" by blast
  have fs: "set [1::nat] \<subseteq> {..<length (drones demo_world)}" by (simp add: demo_shape)
  have "\<forall>q < length (drones demo_world).
           (q \<in> set [1] \<and> role (drones demo_world ! q) = ''follower''
              \<longrightarrow> follow_step (position_of demo_world q) (position_of demo_world 0) = Inr (position_of W q))
         \<and> (q \<notin> set [1] \<or> role (drones demo_world ! q) \<noteq> ''follower''
              \<longrightarrow> position_of W q = position_of demo_world q)"
    by (rule broadcast_moves_followers [OF demo_wf _ _ fs _ W]) (simp_all add: demo_shape)
  note all = this
  have "follow_step (position_of demo_world 1) (position_of demo_world 0) = Inr (position_of W 1)"
    using all [rule_format, of 1] by (simp add: demo_shape)
  moreover have "follow_step (position_of demo_world 1) (position_of demo_world 0)
      = Inr \<lparr>lat = 0, lon = 0, alt = 2\<rparr>"
    by (simp add: demo_eval follow_step_def)
  ultimately show ?thesis using W by simp
qed

end
